theory Spec2Isabelle
  imports Main
begin

section \<open>JSON values and the two serialisers the script relies on\<close>

text \<open>
  The fixtures of \<^verbatim>\<open>verification/verify_timeline_editor.py\<close> are Python dict, list,
  str and int literals; the injected auth object is a JavaScript object literal. Both are
  values of one datatype. A dict keeps its keys in the order they were written, so an
  object is an association list.
\<close>

datatype json =
    JStr string
  | JInt int
  | JArr "json list"
  | JObj "(string \<times> json) list"

fun string_of_nat :: "nat \<Rightarrow> string" where
  "string_of_nat n =
     (if n < 10 then [''0123456789'' ! n]
      else string_of_nat (n div 10) @ [''0123456789'' ! (n mod 10)])"

declare string_of_nat.simps [simp del]

definition string_of_int :: "int \<Rightarrow> string" where
  "string_of_int i =
     (if i < 0 then CHR ''-'' # string_of_nat (nat (- i)) else string_of_nat (nat i))"

text \<open>
  Both serialisers write a string between double quotes and escape the double quote and
  the backslash. (Control characters and, in Python, non-ASCII characters get further
  escapes; no string of the script contains one.)
\<close>

definition escape_char :: "char \<Rightarrow> string" where
  "escape_char c =
     (if c = CHR 0x22 then [CHR 0x5C, CHR 0x22]
      else if c = CHR 0x5C then [CHR 0x5C, CHR 0x5C]
      else [c])"

definition quote :: "string \<Rightarrow> string" where
  "quote s = [CHR 0x22] @ concat (map escape_char s) @ [CHR 0x22]"

fun join :: "string \<Rightarrow> string list \<Rightarrow> string" where
  "join sep [] = []"
| "join sep [x] = x"
| "join sep (x # y # ys) = x @ sep @ join sep (y # ys)"

fun encode :: "string \<Rightarrow> string \<Rightarrow> json \<Rightarrow> string" where
  "encode item_sep key_sep (JStr s) = quote s"
| "encode item_sep key_sep (JInt i) = string_of_int i"
| "encode item_sep key_sep (JArr xs) =
     ''['' @ join item_sep (map (encode item_sep key_sep) xs) @ '']''"
| "encode item_sep key_sep (JObj kvs) =
     ''{'' @ join item_sep
        (map (\<lambda>(k, v). quote k @ key_sep @ encode item_sep key_sep v) kvs) @ ''}''"

text \<open>Python's \<^verbatim>\<open>json.dumps(data)\<close> with its default separators.\<close>

definition json_dumps :: "json \<Rightarrow> string" where
  "json_dumps = encode '', '' '': ''"

text \<open>JavaScript's \<^verbatim>\<open>JSON.stringify(value)\<close>: no white space.\<close>

definition JSON_stringify :: "json \<Rightarrow> string" where
  "JSON_stringify = encode '','' '':''"

text \<open>The paths from the root of a value to every leaf, and the field of an object.\<close>

fun leaf_paths :: "json \<Rightarrow> string list list" where
  "leaf_paths (JObj kvs) = concat (map (\<lambda>(k, v). map ((#) k) (leaf_paths v)) kvs)"
| "leaf_paths _ = [[]]"

fun field :: "json \<Rightarrow> string \<Rightarrow> json option" where
  "field (JObj kvs) k = map_of kvs k"
| "field _ k = None"


section \<open>Exceptions, page operations and traces\<close>

text \<open>
  Python separates the exceptions that derive from \<^verbatim>\<open>Exception\<close> (here the assertion
  error raised by \<^verbatim>\<open>expect\<close>, Playwright's \<^verbatim>\<open>Error\<close> and its subclass
  \<^verbatim>\<open>TimeoutError\<close>, and any other) from those that derive from
  \<^verbatim>\<open>BaseException\<close> only. A bare \<^verbatim>\<open>except:\<close> catches both kinds;
  \<^verbatim>\<open>except Exception\<close> catches the first kind only.
\<close>

datatype exn_class =
    AssertionError
  | PlaywrightError
  | TimeoutError
  | OtherException
  | KeyboardInterrupt
  | SystemExit

datatype exn = Exn (class_of: exn_class) (str: string)

fun derives_from_Exception :: "exn_class \<Rightarrow> bool" where
  "derives_from_Exception KeyboardInterrupt = False"
| "derives_from_Exception SystemExit = False"
| "derives_from_Exception _ = True"

definition isinstance_Exception :: "exn \<Rightarrow> bool" where
  "isinstance_Exception e = derives_from_Exception (class_of e)"

text \<open>
  A locator is built without talking to the browser: \<^verbatim>\<open>page.get_by_text\<close>,
  \<^verbatim>\<open>page.get_by_role\<close> and \<^verbatim>\<open>page.get_by_title\<close> are constructors.
\<close>

datatype locator =
    get_by_text string
  | get_by_role string string
  | get_by_title string

text \<open>
  The callbacks the script passes to the library are lambdas of three shapes, kept as data:
  \<^verbatim>\<open>lambda msg: print(f"<prefix>{msg.text}")\<close>,
  \<^verbatim>\<open>lambda route: handle_json(route, data)\<close> and
  \<^verbatim>\<open>lambda route: route.fulfill(status=n)\<close>.
\<close>

datatype listener = print_prefixed string

datatype handler =
    handle_json_with json
  | fulfill_status nat

text \<open>The one function the script evaluates in the page.\<close>

datatype page_function = inject_auth_function

text \<open>
  Every call the script makes on the Playwright objects. \<open>expect_visible l t\<close> is
  \<^verbatim>\<open>expect(l).to_be_visible(timeout=t)\<close>; the timeout is \<open>None\<close> where the script
  passes none.
\<close>

datatype action =
    sync_playwright_enter
  | sync_playwright_exit
  | launch bool
  | new_page
  | browser_close
  | page_on string listener
  | page_route string handler
  | page_goto string
  | page_evaluate page_function
  | page_reload
  | expect_visible locator "nat option"
  | page_screenshot string
  | page_click string
  | keyboard_press string
  | locator_click locator

text \<open>
  What the script does is a list of events: the lines it prints and the calls it makes,
  each call with the exception it raised, if any.
\<close>

datatype event =
    Print string
  | Call action "exn option"

datatype outcome = Returned | Raised exn

text \<open>
  The browser and the application under test are outside the script. The environment
  says, for each call, whether it returns or which exception it raises; the script makes
  each of its calls at most once, so this is every deterministic environment.
\<close>

type_synonym env = "action \<Rightarrow> exn option"

text \<open>A statement, run: how it ended and the events it produced, oldest first.\<close>

type_synonym stmt = "outcome \<times> event list"

definition call :: "env \<Rightarrow> action \<Rightarrow> stmt" where
  "call env a =
     (case env a of
        None \<Rightarrow> (Returned, [Call a None])
      | Some e \<Rightarrow> (Raised e, [Call a (Some e)]))"

definition py_print :: "string \<Rightarrow> stmt" where
  "py_print s = (Returned, [Print s])"

definition reraise :: "exn \<Rightarrow> stmt" where
  "reraise e = (Raised e, [])"

text \<open>Statements in sequence: the first exception ends the block.\<close>

fun block :: "stmt list \<Rightarrow> stmt" where
  "block [] = (Returned, [])"
| "block ((Returned, t) # cs) = (case block cs of (r, t') \<Rightarrow> (r, t @ t'))"
| "block ((Raised e, t) # cs) = (Raised e, t)"

text \<open>\<^verbatim>\<open>try: body / except: handler\<close>, the bare form.\<close>

fun try_except :: "stmt \<Rightarrow> (exn \<Rightarrow> stmt) \<Rightarrow> stmt" where
  "try_except (Returned, t) handler = (Returned, t)"
| "try_except (Raised e, t) handler = (case handler e of (r, t') \<Rightarrow> (r, t @ t'))"

text \<open>\<^verbatim>\<open>try: body / except Exception as e: handler\<close>.\<close>

fun try_except_Exception :: "stmt \<Rightarrow> (exn \<Rightarrow> stmt) \<Rightarrow> stmt" where
  "try_except_Exception (Returned, t) handler = (Returned, t)"
| "try_except_Exception (Raised e, t) handler =
     (if isinstance_Exception e then (case handler e of (r, t') \<Rightarrow> (r, t @ t'))
      else (Raised e, t))"

text \<open>
  \<^verbatim>\<open>try: body / finally: cleanup\<close>: the cleanup runs on every path; an exception of
  the cleanup replaces the outcome of the body.
\<close>

fun try_finally :: "stmt \<Rightarrow> stmt \<Rightarrow> stmt" where
  "try_finally (r, t) (Returned, t') = (r, t @ t')"
| "try_finally (r, t) (Raised e, t') = (Raised e, t @ t')"

text \<open>
  \<^verbatim>\<open>with cm: body\<close> for a context manager whose exit does not suppress exceptions:
  if entering succeeds, the exit runs on every path.
\<close>

fun with_context :: "stmt \<Rightarrow> stmt \<Rightarrow> stmt \<Rightarrow> stmt" where
  "with_context (Returned, t) exit body =
     (case try_finally body exit of (r, t') \<Rightarrow> (r, t @ t'))"
| "with_context (Raised e, t) exit body = (Raised e, t)"

text \<open>Reading a trace: the calls made, and the screenshot files written.\<close>

fun calls :: "event list \<Rightarrow> action list" where
  "calls [] = []"
| "calls (Print s # t) = calls t"
| "calls (Call a r # t) = a # calls t"

fun files_written :: "event list \<Rightarrow> string list" where
  "files_written [] = []"
| "files_written (Call (page_screenshot p) None # t) = p # files_written t"
| "files_written (ev # t) = files_written t"

fun registered :: "event list \<Rightarrow> (string \<times> handler) list" where
  "registered [] = []"
| "registered (Call (page_route p h) None # t) = (p, h) # registered t"
| "registered (ev # t) = registered t"

text \<open>
  Running a list of calls in order against an environment: the calls made (up to and
  including the first that raises) and the first failure.
\<close>

fun performed :: "env \<Rightarrow> action list \<Rightarrow> action list" where
  "performed env [] = []"
| "performed env (a # as) = (if env a = None then a # performed env as else [a])"

fun first_failure :: "env \<Rightarrow> action list \<Rightarrow> (action \<times> exn) option" where
  "first_failure env [] = None"
| "first_failure env (a # as) =
     (case env a of None \<Rightarrow> first_failure env as | Some e \<Rightarrow> Some (a, e))"

definition all_return :: "env \<Rightarrow> action list \<Rightarrow> bool" where
  "all_return env as = list_all (\<lambda>a. env a = None) as"


section \<open>The script\<close>

subsection \<open>Route handlers\<close>

text \<open>
  What a handler does with the route it is given: print, and answer the request itself
  (\<open>Fulfill\<close>) or let it go to the network (\<open>Continue\<close>). The script never does
  the latter.
\<close>

record response =
  status :: nat
  content_type :: "string option"
  body :: "string option"

datatype route_event =
    Log string
  | Fulfill response
  | Continue

definition handle_json :: "string \<Rightarrow> json \<Rightarrow> route_event list" where
  "handle_json url data =
     [Log (''MOCKING: '' @ url),
      Fulfill \<lparr>status = 200, content_type = Some ''application/json'',
               body = Some (json_dumps data)\<rparr>]"

fun run_handler :: "handler \<Rightarrow> string \<Rightarrow> route_event list" where
  "run_handler (handle_json_with data) url = handle_json url data"
| "run_handler (fulfill_status n) url =
     [Fulfill \<lparr>status = n, content_type = None, body = None\<rparr>]"

text \<open>The bytes of the answer: a response without a body is empty.\<close>

definition body_text :: "response \<Rightarrow> string" where
  "body_text r = (case body r of None \<Rightarrow> [] | Some s \<Rightarrow> s)"

fun run_listener :: "listener \<Rightarrow> string \<Rightarrow> event" where
  "run_listener (print_prefixed p) msg = Print (p @ msg)"

subsection \<open>Fixtures\<close>

definition auth_refresh_data :: json where
  "auth_refresh_data =
     JObj [(''record'', JObj [(''id'', JStr ''user1''), (''email'', JStr ''test@test.com'')]),
           (''token'', JStr ''test-token'')]"

definition workspaces_data :: json where
  "workspaces_data =
     JObj [(''items'',
            JArr [JObj [(''id'', JStr ''ws1''), (''name'', JStr ''Test Workspace''),
                        (''members'', JArr [JStr ''user1''])]])]"

definition timeline_data :: json where
  "timeline_data =
     JObj [(''id'', JStr ''tl1''),
           (''name'', JStr ''Test Timeline''),
           (''WorkspaceRef'', JStr ''ws1''),
           (''clips'', JArr []),
           (''duration'', JInt 100),
           (''expand'', JObj [(''TimelineClips_via_TimelineRef'', JArr [])])]"

definition media_clips_data :: json where
  "media_clips_data = JObj [(''items'', JArr []), (''totalItems'', JInt 0)]"

definition recommendations_data :: json where
  "recommendations_data = JObj [(''items'', JArr []), (''totalItems'', JInt 0)]"

text \<open>The six registrations, in the order of the script.\<close>

definition routes :: "(string \<times> handler) list" where
  "routes =
     [(''**/api/collections/users/auth-refresh'', handle_json_with auth_refresh_data),
      (''**/api/collections/Workspaces/records**'', handle_json_with workspaces_data),
      (''**/api/collections/Timelines/records/tl1*'', handle_json_with timeline_data),
      (''**/api/collections/MediaClips/records**'', handle_json_with media_clips_data),
      (''**/api/collections/TimelineRecommendations/records**'',
         handle_json_with recommendations_data),
      (''**/api/files/**'', fulfill_status 404)]"

subsection \<open>The function evaluated in the page\<close>

record page_storage =
  localStorage :: "string \<rightharpoonup> string"
  cookies :: "string \<rightharpoonup> string"

definition localStorage_setItem :: "string \<Rightarrow> string \<Rightarrow> page_storage \<Rightarrow> page_storage" where
  "localStorage_setItem k v st = st\<lparr>localStorage := (localStorage st)(k \<mapsto> v)\<rparr>"

text \<open>
  Assigning to \<^verbatim>\<open>document.cookie\<close> stores one cookie: the name-value pair is the text
  before the first semicolon (attributes follow it), the name the text before the first
  equals sign of the pair and the value the text after it.
\<close>

definition document_cookie_assign :: "string \<Rightarrow> page_storage \<Rightarrow> page_storage" where
  "document_cookie_assign s st =
     (let pair = takeWhile (\<lambda>c. c \<noteq> CHR '';'') s;
          name = takeWhile (\<lambda>c. c \<noteq> CHR ''='') pair;
          val = drop 1 (dropWhile (\<lambda>c. c \<noteq> CHR ''='') pair)
      in st\<lparr>cookies := (cookies st)(name \<mapsto> val)\<rparr>)"

definition authStore :: json where
  "authStore =
     JObj [(''token'', JStr ''test-token''),
           (''model'', JObj [(''id'', JStr ''user1''), (''email'', JStr ''test@test.com'')])]"

definition inject_auth :: "page_storage \<Rightarrow> page_storage" where
  "inject_auth st =
     (let st1 = localStorage_setItem ''pocketbase_auth'' (JSON_stringify authStore) st
      in document_cookie_assign (''pb_auth='' @ JSON_stringify authStore @ ''; path=/'') st1)"

fun run_page_function :: "page_function \<Rightarrow> page_storage \<Rightarrow> page_storage" where
  "run_page_function inject_auth_function st = inject_auth st"

subsection \<open>\<^verbatim>\<open>test_timeline_editor\<close>\<close>

definition settings_btn :: locator where
  "settings_btn = get_by_title ''Settings''"

definition wait_for_content :: "env \<Rightarrow> stmt" where
  "wait_for_content env =
     try_except
       (call env (expect_visible (get_by_text ''Test Timeline'') (Some 10000)))
       (\<lambda>e. block
          [py_print ''Timeout. Taking screenshot...'',
           call env (page_screenshot ''verification/timeout.png''),
           reraise e])"

definition test_timeline_editor :: "env \<Rightarrow> stmt" where
  "test_timeline_editor env = block
     [call env (page_on ''console'' (print_prefixed ''PAGE LOG: '')),
      call env (page_on ''pageerror'' (print_prefixed ''PAGE ERROR: '')),
      call env (page_route ''**/api/collections/users/auth-refresh''
                  (handle_json_with auth_refresh_data)),
      call env (page_route ''**/api/collections/Workspaces/records**''
                  (handle_json_with workspaces_data)),
      call env (page_route ''**/api/collections/Timelines/records/tl1*''
                  (handle_json_with timeline_data)),
      call env (page_route ''**/api/collections/MediaClips/records**''
                  (handle_json_with media_clips_data)),
      call env (page_route ''**/api/collections/TimelineRecommendations/records**''
                  (handle_json_with recommendations_data)),
      call env (page_route ''**/api/files/**'' (fulfill_status 404)),
      py_print ''Navigating...'',
      call env (page_goto ''http://localhost:3000/timelines/tl1''),
      py_print ''Injecting auth...'',
      call env (page_evaluate inject_auth_function),
      py_print ''Reloading...'',
      call env page_reload,
      py_print ''Waiting for content...'',
      wait_for_content env,
      py_print ''Timeline loaded.'',
      call env (page_click ''text=Recent''),
      call env (expect_visible (get_by_role ''option'' ''Creation Time'') None),
      py_print ''Creation Time option found.'',
      call env (keyboard_press ''Escape''),
      call env (expect_visible settings_btn None),
      py_print ''Settings button found.'',
      call env (locator_click settings_btn),
      call env (expect_visible (get_by_text ''Recommendation Settings'') None),
      call env (expect_visible (get_by_text ''Active Strategies'') None),
      py_print ''Settings modal opened.'',
      call env (page_screenshot ''verification/verification.png''),
      py_print ''Screenshot taken.'']"

subsection \<open>The entry point\<close>

definition main :: "env \<Rightarrow> stmt" where
  "main env =
     with_context (call env sync_playwright_enter) (call env sync_playwright_exit)
       (block
          [call env (launch True),
           call env new_page,
           try_finally
             (try_except_Exception (test_timeline_editor env)
                (\<lambda>e. py_print (''Error: '' @ str e)))
             (call env browser_close)])"

subsection \<open>The steps of the script, named\<close>

text \<open>
  The calls of \<^verbatim>\<open>test_timeline_editor\<close> in program order, for stating properties:
  the set-up (listeners and intercept rules), the steps up to the reload, the wait for
  the content, and the steps after it.
\<close>

definition setup_steps :: "action list" where
  "setup_steps =
     [page_on ''console'' (print_prefixed ''PAGE LOG: ''),
      page_on ''pageerror'' (print_prefixed ''PAGE ERROR: ''),
      page_route ''**/api/collections/users/auth-refresh''
        (handle_json_with auth_refresh_data),
      page_route ''**/api/collections/Workspaces/records**''
        (handle_json_with workspaces_data),
      page_route ''**/api/collections/Timelines/records/tl1*''
        (handle_json_with timeline_data),
      page_route ''**/api/collections/MediaClips/records**''
        (handle_json_with media_clips_data),
      page_route ''**/api/collections/TimelineRecommendations/records**''
        (handle_json_with recommendations_data),
      page_route ''**/api/files/**'' (fulfill_status 404)]"

definition load_steps :: "action list" where
  "load_steps =
     [page_goto ''http://localhost:3000/timelines/tl1'',
      page_evaluate inject_auth_function,
      page_reload]"

definition content_wait :: action where
  "content_wait = expect_visible (get_by_text ''Test Timeline'') (Some 10000)"

definition timeout_screenshot :: action where
  "timeout_screenshot = page_screenshot ''verification/timeout.png''"

definition check_steps :: "action list" where
  "check_steps =
     [page_click ''text=Recent'',
      expect_visible (get_by_role ''option'' ''Creation Time'') None,
      keyboard_press ''Escape'',
      expect_visible (get_by_title ''Settings'') None,
      locator_click (get_by_title ''Settings''),
      expect_visible (get_by_text ''Recommendation Settings'') None,
      expect_visible (get_by_text ''Active Strategies'') None]"

definition later_assertions :: "action list" where
  "later_assertions =
     [expect_visible (get_by_role ''option'' ''Creation Time'') None,
      expect_visible (get_by_title ''Settings'') None,
      expect_visible (get_by_text ''Recommendation Settings'') None,
      expect_visible (get_by_text ''Active Strategies'') None]"

definition final_screenshot :: action where
  "final_screenshot = page_screenshot ''verification/verification.png''"

text \<open>A call that is not part of the set-up: it can make the page issue requests.\<close>

fun is_setup :: "action \<Rightarrow> bool" where
  "is_setup (page_on ev l) = True"
| "is_setup (page_route p h) = True"
| "is_setup _ = False"

text \<open>Whether a handler lets the request go to the network.\<close>

fun goes_to_network :: "route_event list \<Rightarrow> bool" where
  "goes_to_network [] = False"
| "goes_to_network (Continue # es) = True"
| "goes_to_network (e # es) = goes_to_network es"

subsection \<open>Straight-line code\<close>

text \<open>
  Outside the \<^verbatim>\<open>try\<close> statement the function is a sequence of prints and calls.
  Such a sequence is run by \<open>run_step\<close>; the function is the sequence before the
  wait, the wait, and the sequence after it (lemma \<open>test_phases\<close> below).
\<close>

datatype step = Say string | Do action

fun run_step :: "env \<Rightarrow> step \<Rightarrow> stmt" where
  "run_step env (Say s) = py_print s"
| "run_step env (Do a) = call env a"

fun actions_of :: "step list \<Rightarrow> action list" where
  "actions_of [] = []"
| "actions_of (Say s # ss) = actions_of ss"
| "actions_of (Do a # ss) = a # actions_of ss"

text \<open>The events of a sequence in which every call returns.\<close>

fun passed :: "step list \<Rightarrow> event list" where
  "passed [] = []"
| "passed (Say s # ss) = Print s # passed ss"
| "passed (Do a # ss) = Call a None # passed ss"

definition before_wait :: "step list" where
  "before_wait =
     map Do setup_steps @
     [Say ''Navigating...'', Do (page_goto ''http://localhost:3000/timelines/tl1''),
      Say ''Injecting auth...'', Do (page_evaluate inject_auth_function),
      Say ''Reloading...'', Do page_reload,
      Say ''Waiting for content...'']"

definition after_wait :: "step list" where
  "after_wait =
     [Say ''Timeline loaded.'',
      Do (page_click ''text=Recent''),
      Do (expect_visible (get_by_role ''option'' ''Creation Time'') None),
      Say ''Creation Time option found.'',
      Do (keyboard_press ''Escape''),
      Do (expect_visible (get_by_title ''Settings'') None),
      Say ''Settings button found.'',
      Do (locator_click (get_by_title ''Settings'')),
      Do (expect_visible (get_by_text ''Recommendation Settings'') None),
      Do (expect_visible (get_by_text ''Active Strategies'') None),
      Say ''Settings modal opened.'',
      Do final_screenshot,
      Say ''Screenshot taken.'']"

subsection \<open>Environments used below\<close>

definition env_all_pass :: env where
  "env_all_pass = (\<lambda>a. None)"

text \<open>
  The option \<^verbatim>\<open>Creation Time\<close> never shows: \<^verbatim>\<open>expect(...).to_be_visible()\<close>
  gives up after the library's default timeout and raises.
\<close>

definition creation_time_timeout :: exn where
  "creation_time_timeout = Exn AssertionError ''Locator expected to be visible''"

definition env_creation_time_missing :: env where
  "env_creation_time_missing =
     (\<lambda>a. if a = expect_visible (get_by_role ''option'' ''Creation Time'') None
          then Some creation_time_timeout else None)"

text \<open>The user interrupts the run during the navigation.\<close>

definition env_interrupted :: env where
  "env_interrupted =
     (\<lambda>a. if a = page_goto ''http://localhost:3000/timelines/tl1''
          then Some (Exn KeyboardInterrupt []) else None)"

text \<open>The application is not running: the navigation fails.\<close>

definition connection_refused :: exn where
  "connection_refused = Exn PlaywrightError ''net::ERR_CONNECTION_REFUSED''"

definition env_server_down :: env where
  "env_server_down =
     (\<lambda>a. if a = page_goto ''http://localhost:3000/timelines/tl1''
          then Some connection_refused else None)"

text \<open>The content never shows, and the wait is cut short by an interrupt.\<close>

definition env_wait_interrupted :: env where
  "env_wait_interrupted =
     (\<lambda>a. if a = content_wait then Some (Exn KeyboardInterrupt []) else None)"

definition content_timeout :: exn where
  "content_timeout = Exn AssertionError ''Locator expected to be visible''"

definition env_content_missing :: env where
  "env_content_missing = (\<lambda>a. if a = content_wait then Some content_timeout else None)"

text \<open>Every step passes but the final screenshot, which the browser refuses.\<close>

definition screenshot_failure :: exn where
  "screenshot_failure = Exn PlaywrightError ''Page.screenshot: Target page has been closed''"

definition env_final_screenshot_fails :: env where
  "env_final_screenshot_fails =
     (\<lambda>a. if a = final_screenshot then Some screenshot_failure else None)"

text \<open>The content never shows, and the diagnostic screenshot cannot be written.\<close>

definition disk_full :: exn where
  "disk_full = Exn OtherException ''[Errno 28] No space left on device''"

definition env_wait_and_screenshot_fail :: env where
  "env_wait_and_screenshot_fail =
     (\<lambda>a. if a = content_wait then Some content_timeout
          else if a = timeout_screenshot then Some disk_full
          else None)"

section \<open>How the function runs\<close>

lemma test_phases:
  "test_timeline_editor env =
     block (map (run_step env) before_wait @ [wait_for_content env] @ map (run_step env) after_wait)"
  by (simp add: test_timeline_editor_def before_wait_def after_wait_def settings_btn_def
      setup_steps_def final_screenshot_def)

lemma actions_before: "actions_of before_wait = setup_steps @ load_steps"
  by (simp add: before_wait_def setup_steps_def load_steps_def)

lemma actions_after: "actions_of after_wait = check_steps @ [final_screenshot]"
  by (simp add: after_wait_def check_steps_def)

lemma block_append:
  "block (cs @ ds) =
     (case block cs of
        (Returned, t) \<Rightarrow> (case block ds of (r, t') \<Rightarrow> (r, t @ t'))
      | (Raised e, t) \<Rightarrow> (Raised e, t))"
proof (induction cs)
  case Nil
  show ?case by (simp split: prod.splits)
next
  case (Cons c cs)
  obtain r t where c: "c = (r, t)" by (cases c)
  show ?case
  proof (cases r)
    case Returned
    with c Cons show ?thesis by (simp split: prod.splits outcome.splits)
  next
    case (Raised e)
    with c show ?thesis by simp
  qed
qed

lemma straight_outcome:
  "fst (block (map (run_step env) ss)) =
     (case first_failure env (actions_of ss) of None \<Rightarrow> Returned | Some (a, e) \<Rightarrow> Raised e)"
proof (induction ss)
  case Nil
  show ?case by simp
next
  case (Cons s ss)
  then show ?case
    by (cases s) (auto simp: py_print_def call_def split: option.splits prod.splits)
qed

lemma straight_calls:
  "calls (snd (block (map (run_step env) ss))) = performed env (actions_of ss)"
proof (induction ss)
  case Nil
  show ?case by simp
next
  case (Cons s ss)
  then show ?case
    by (cases s) (auto simp: py_print_def call_def split: option.splits prod.splits)
qed

lemma calls_append: "calls (t @ u) = calls t @ calls u"
  by (induction t rule: calls.induct) simp_all

lemma first_failure_None: "first_failure env as = None \<longleftrightarrow> all_return env as"
  by (induction as) (simp_all add: all_return_def split: option.splits)

lemma performed_all_return: "all_return env as \<Longrightarrow> performed env as = as"
  by (induction as) (simp_all add: all_return_def)

lemma performed_append:
  "performed env (as @ bs) =
     (if all_return env as then as @ performed env bs else performed env as)"
  by (induction as) (simp_all add: all_return_def)

lemma set_performed: "set (performed env as) \<subseteq> set as"
  by (induction as) auto

lemma wait_outcome:
  "fst (wait_for_content env) =
     (case env content_wait of
        None \<Rightarrow> Returned
      | Some e \<Rightarrow> (case env timeout_screenshot of None \<Rightarrow> Raised e | Some e' \<Rightarrow> Raised e'))"
  by (simp add: wait_for_content_def call_def py_print_def reraise_def content_wait_def
      timeout_screenshot_def split: option.splits)

lemma wait_calls:
  "calls (snd (wait_for_content env)) =
     (case env content_wait of
        None \<Rightarrow> [content_wait]
      | Some e \<Rightarrow> [content_wait, timeout_screenshot])"
  by (simp add: wait_for_content_def call_def py_print_def reraise_def content_wait_def
      timeout_screenshot_def split: option.splits)

lemma outcome_test:
  "fst (test_timeline_editor env) =
     (case first_failure env (setup_steps @ load_steps) of
        Some (a, e) \<Rightarrow> Raised e
      | None \<Rightarrow>
         (case env content_wait of
            Some e \<Rightarrow> (case env timeout_screenshot of None \<Rightarrow> Raised e | Some e' \<Rightarrow> Raised e')
          | None \<Rightarrow>
             (case first_failure env (check_steps @ [final_screenshot]) of
                Some (a, e) \<Rightarrow> Raised e
              | None \<Rightarrow> Returned)))"
proof -
  obtain r1 t1 where b1: "block (map (run_step env) before_wait) = (r1, t1)"
    by (cases "block (map (run_step env) before_wait)")
  obtain r2 t2 where b2: "wait_for_content env = (r2, t2)"
    by (cases "wait_for_content env")
  obtain r3 t3 where b3: "block (map (run_step env) after_wait) = (r3, t3)"
    by (cases "block (map (run_step env) after_wait)")
  have o1: "r1 = (case first_failure env (setup_steps @ load_steps) of
                    None \<Rightarrow> Returned | Some (a, e) \<Rightarrow> Raised e)"
    using straight_outcome [of env before_wait] b1 by (simp add: actions_before)
  have o2: "r2 = (case env content_wait of None \<Rightarrow> Returned
                  | Some e \<Rightarrow> (case env timeout_screenshot of None \<Rightarrow> Raised e | Some e' \<Rightarrow> Raised e'))"
    using wait_outcome [of env] b2 by simp
  have o3: "r3 = (case first_failure env (check_steps @ [final_screenshot]) of
                    None \<Rightarrow> Returned | Some (a, e) \<Rightarrow> Raised e)"
    using straight_outcome [of env after_wait] b3 by (simp add: actions_after)
  have "fst (test_timeline_editor env) =
          (case r1 of Raised e \<Rightarrow> Raised e
           | Returned \<Rightarrow> (case r2 of Raised e \<Rightarrow> Raised e | Returned \<Rightarrow> r3))"
    by (simp add: test_phases block_append b1 b2 b3 split: outcome.splits)
  then show ?thesis
    unfolding o1 o2 o3 by (simp split: option.splits prod.splits)
qed

lemma calls_test:
  "calls (snd (test_timeline_editor env)) =
     performed env (setup_steps @ load_steps) @
     (if all_return env (setup_steps @ load_steps)
      then (case env content_wait of
              Some e \<Rightarrow> [content_wait, timeout_screenshot]
            | None \<Rightarrow> content_wait # performed env (check_steps @ [final_screenshot]))
      else [])"
proof -
  obtain r1 t1 where b1: "block (map (run_step env) before_wait) = (r1, t1)"
    by (cases "block (map (run_step env) before_wait)")
  obtain r2 t2 where b2: "wait_for_content env = (r2, t2)"
    by (cases "wait_for_content env")
  obtain r3 t3 where b3: "block (map (run_step env) after_wait) = (r3, t3)"
    by (cases "block (map (run_step env) after_wait)")
  have o1: "r1 = (case first_failure env (setup_steps @ load_steps) of
                    None \<Rightarrow> Returned | Some (a, e) \<Rightarrow> Raised e)"
    using straight_outcome [of env before_wait] b1 by (simp add: actions_before)
  have o2: "r2 = (case env content_wait of None \<Rightarrow> Returned
                  | Some e \<Rightarrow> (case env timeout_screenshot of None \<Rightarrow> Raised e | Some e' \<Rightarrow> Raised e'))"
    using wait_outcome [of env] b2 by simp
  have c1: "calls t1 = performed env (setup_steps @ load_steps)"
    using straight_calls [of env before_wait] b1 by (simp add: actions_before)
  have c2: "calls t2 = (case env content_wait of None \<Rightarrow> [content_wait]
                        | Some e \<Rightarrow> [content_wait, timeout_screenshot])"
    using wait_calls [of env] b2 by simp
  have c3: "calls t3 = performed env (check_steps @ [final_screenshot])"
    using straight_calls [of env after_wait] b3 by (simp add: actions_after)
  have "calls (snd (test_timeline_editor env)) =
          (case r1 of Raised e \<Rightarrow> calls t1
           | Returned \<Rightarrow> calls t1 @ (case r2 of Raised e \<Rightarrow> calls t2 | Returned \<Rightarrow> calls t2 @ calls t3))"
    by (simp add: test_phases block_append b1 b2 b3 calls_append split: outcome.splits)
  then show ?thesis
    unfolding o1 o2 c1 c2 c3
    by (simp add: first_failure_None [symmetric] split: option.splits prod.splits)
qed

lemma passed_run:
  "all_return env (actions_of ss) \<Longrightarrow> block (map (run_step env) ss) = (Returned, passed ss)"
proof (induction ss)
  case Nil
  show ?case by simp
next
  case (Cons s ss)
  then show ?case
    by (cases s) (auto simp: py_print_def call_def all_return_def)
qed

lemma all_return_append: "all_return env (as @ bs) \<longleftrightarrow> all_return env as \<and> all_return env bs"
  by (simp add: all_return_def)

lemma calls_passed: "calls (passed ss) = actions_of ss"
  by (induction ss rule: passed.induct) simp_all

lemma registered_append: "registered (t @ u) = registered t @ registered u"
  by (induction t rule: registered.induct) simp_all

lemma registered_Nil:
  "(\<And>p h. page_route p h \<notin> set (calls t)) \<Longrightarrow> registered t = []"
  by (induction t rule: registered.induct) auto

lemma files_written_append: "files_written (t @ u) = files_written t @ files_written u"
  by (induction t rule: files_written.induct) simp_all

lemma files_written_Nil:
  "(\<And>p. page_screenshot p \<notin> set (calls t)) \<Longrightarrow> files_written t = []"
  by (induction t rule: files_written.induct) auto

lemma nth_calls: "i < length t \<Longrightarrow> t ! i = Call a r \<Longrightarrow> a \<in> set (calls t)"
proof (induction t arbitrary: i rule: calls.induct)
  case 1
  then show ?case by simp
next
  case (2 s t)
  then show ?case by (cases i) auto
next
  case (3 b q t)
  then show ?case by (cases i) auto
qed

lemma set_calls_take: "set (calls (take k t)) \<subseteq> set (calls t)"
proof -
  have "calls t = calls (take k t) @ calls (drop k t)"
    using calls_append [of "take k t" "drop k t"] by simp
  then show ?thesis by auto
qed

text \<open>When the steps before the wait pass.\<close>

lemma test_after_load:
  assumes "all_return env (setup_steps @ load_steps)"
  shows "test_timeline_editor env =
     (case wait_for_content env of
        (Returned, t2) \<Rightarrow>
          (case block (map (run_step env) after_wait) of
             (r, t3) \<Rightarrow> (r, passed before_wait @ t2 @ t3))
      | (Raised e, t2) \<Rightarrow> (Raised e, passed before_wait @ t2))"
proof -
  have "block (map (run_step env) before_wait) = (Returned, passed before_wait)"
    using assms by (simp add: passed_run actions_before)
  then show ?thesis
    by (simp add: test_phases block_append split: prod.splits outcome.splits)
qed

lemma wait_fails:
  "env content_wait = Some e \<Longrightarrow>
   wait_for_content env =
     (case env timeout_screenshot of None \<Rightarrow> Raised e | Some e' \<Rightarrow> Raised e',
      [Call content_wait (Some e), Print ''Timeout. Taking screenshot...'',
       Call timeout_screenshot (env timeout_screenshot)])"
  by (simp add: wait_for_content_def call_def py_print_def reraise_def content_wait_def
      timeout_screenshot_def split: option.splits)

lemma wait_passes:
  "env content_wait = None \<Longrightarrow> wait_for_content env = (Returned, [Call content_wait None])"
  by (simp add: wait_for_content_def call_def content_wait_def)

lemma calls_test_subset:
  "set (calls (snd (test_timeline_editor env))) \<subseteq>
     set (setup_steps @ load_steps @ [content_wait, timeout_screenshot] @ check_steps @
          [final_screenshot])"
proof -
  have "set (performed env (setup_steps @ load_steps)) \<subseteq> set (setup_steps @ load_steps)"
    by (rule set_performed)
  moreover have "set (performed env (check_steps @ [final_screenshot]))
      \<subseteq> set (check_steps @ [final_screenshot])"
    by (rule set_performed)
  ultimately show ?thesis
    unfolding calls_test by (auto split: option.splits if_splits)
qed

lemma first_failure_append:
  "first_failure env (as @ bs) =
     (case first_failure env as of None \<Rightarrow> first_failure env bs | Some x \<Rightarrow> Some x)"
  by (induction as) (simp_all split: option.splits)

lemma actions_of_Do: "actions_of (map Do as) = as"
  by (induction as) simp_all

lemma actions_of_append: "actions_of (ss @ ss') = actions_of ss @ actions_of ss'"
  by (induction ss rule: actions_of.induct) simp_all

lemma passed_append: "passed (ss @ ss') = passed ss @ passed ss'"
  by (induction ss rule: passed.induct) simp_all

lemma files_written_before: "files_written (passed before_wait) = []"
  by (simp add: before_wait_def setup_steps_def)

lemma registered_setup: "registered (passed (map Do setup_steps)) = routes"
  by (simp add: setup_steps_def routes_def)

lemma is_setup_setup_steps: "a \<in> set setup_steps \<Longrightarrow> is_setup a"
  by (auto simp: setup_steps_def)

text \<open>The calls that can follow the set-up: none of them registers anything.\<close>

lemma no_route_later:
  "page_route p h \<notin>
     set (load_steps @ [content_wait, timeout_screenshot] @ check_steps @ [final_screenshot])"
  by (simp add: load_steps_def content_wait_def timeout_screenshot_def check_steps_def
      final_screenshot_def)

lemma test_after_setup:
  assumes "all_return env setup_steps"
  obtains r u where
    "test_timeline_editor env = (r, passed (map Do setup_steps) @ u)"
    "set (calls u) \<subseteq>
       set (load_steps @ [content_wait, timeout_screenshot] @ check_steps @ [final_screenshot])"
proof -
  define tail where "tail = drop (length setup_steps) before_wait"
  define rest where
    "rest = block (map (run_step env) tail @ [wait_for_content env] @
                   map (run_step env) after_wait)"
  have bw: "before_wait = map Do setup_steps @ tail"
    by (simp add: tail_def before_wait_def)
  have "block (map (run_step env) (map Do setup_steps)) =
          (Returned, passed (map Do setup_steps))"
    using assms passed_run [of env "map Do setup_steps"] by (simp add: actions_of_Do)
  then have t: "test_timeline_editor env = (fst rest, passed (map Do setup_steps) @ snd rest)"
    unfolding test_phases bw rest_def
    by (simp add: block_append split: prod.splits)
  have "calls (snd (test_timeline_editor env)) = setup_steps @ calls (snd rest)"
    by (simp add: t calls_append calls_passed actions_of_Do)
  moreover have "calls (snd (test_timeline_editor env)) =
      setup_steps @ performed env load_steps @
        (if all_return env (setup_steps @ load_steps)
         then (case env content_wait of
                 Some e \<Rightarrow> [content_wait, timeout_screenshot]
               | None \<Rightarrow> content_wait # performed env (check_steps @ [final_screenshot]))
         else [])"
    using assms by (simp add: calls_test performed_append)
  ultimately have c: "calls (snd rest) =
      performed env load_steps @
        (if all_return env (setup_steps @ load_steps)
         then (case env content_wait of
                 Some e \<Rightarrow> [content_wait, timeout_screenshot]
               | None \<Rightarrow> content_wait # performed env (check_steps @ [final_screenshot]))
         else [])"
    by simp
  have "set (performed env load_steps) \<subseteq> set load_steps"
    by (rule set_performed)
  moreover have "set (performed env (check_steps @ [final_screenshot]))
      \<subseteq> set (check_steps @ [final_screenshot])"
    by (rule set_performed)
  ultimately have "set (calls (snd rest)) \<subseteq>
      set (load_steps @ [content_wait, timeout_screenshot] @ check_steps @ [final_screenshot])"
    unfolding c by (auto split: option.splits if_splits)
  with t show thesis by (rule that)
qed

lemma all_return_all_pass: "all_return env_all_pass as"
  by (simp add: all_return_def env_all_pass_def list_all_iff)

lemma trace_all_pass:
  "test_timeline_editor env_all_pass =
     (Returned, passed before_wait @ Call content_wait None # passed after_wait)"
proof -
  have 1: "all_return env_all_pass (setup_steps @ load_steps)"
    by (rule all_return_all_pass)
  have 2: "wait_for_content env_all_pass = (Returned, [Call content_wait None])"
    by (simp add: wait_passes env_all_pass_def)
  have 3: "block (map (run_step env_all_pass) after_wait) = (Returned, passed after_wait)"
    by (rule passed_run) (rule all_return_all_pass)
  show ?thesis
    by (simp add: test_after_load [OF 1] 2 3)
qed

lemma no_screenshot_before_check:
  "page_screenshot p \<notin> set (setup_steps @ load_steps @ content_wait # check_steps)"
  by (simp add: setup_steps_def load_steps_def content_wait_def check_steps_def)

lemma performed_failing:
  "first_failure env as = Some (a, e) \<Longrightarrow> performed env (as @ bs) = performed env as"
  by (simp add: performed_append first_failure_None [symmetric])

lemma env_content_missing_before: "all_return env_content_missing (setup_steps @ load_steps)"
  by (simp add: all_return_def env_content_missing_def setup_steps_def load_steps_def
      content_wait_def)

lemma env_wait_interrupted_before: "all_return env_wait_interrupted (setup_steps @ load_steps)"
  by (simp add: all_return_def env_wait_interrupted_def setup_steps_def load_steps_def
      content_wait_def)

lemma env_creation_time_missing_before:
  "all_return env_creation_time_missing (setup_steps @ load_steps @ [content_wait])"
  by (simp add: all_return_def env_creation_time_missing_def setup_steps_def load_steps_def
      content_wait_def)

lemma final_screenshot_fresh:
  "final_screenshot \<notin> set (setup_steps @ load_steps @ [content_wait, timeout_screenshot] @ check_steps)"
  by (simp add: setup_steps_def load_steps_def content_wait_def check_steps_def
      final_screenshot_def timeout_screenshot_def)

lemma final_in_performed:
  "final_screenshot \<in> set (performed env (check_steps @ [final_screenshot])) \<longleftrightarrow>
     all_return env check_steps"
proof (cases "all_return env check_steps")
  case True
  then show ?thesis by (simp add: performed_append)
next
  case False
  then have "performed env (check_steps @ [final_screenshot]) = performed env check_steps"
    by (simp add: performed_append)
  moreover have "set (performed env check_steps) \<subseteq> set check_steps"
    by (rule set_performed)
  ultimately show ?thesis
    using False final_screenshot_fresh by auto
qed

lemma after_wait_ends:
  "passed after_wait =
     passed (butlast (butlast after_wait)) @
     [Call (page_screenshot ''verification/verification.png'') None,
      Print ''Screenshot taken.'']"
  by (simp add: after_wait_def final_screenshot_def)

lemma files_written_after: "files_written (passed after_wait) = [''verification/verification.png'']"
  by (simp add: after_wait_def final_screenshot_def)

lemma final_called_iff:
  "final_screenshot \<in> set (calls (snd (test_timeline_editor env))) \<longleftrightarrow>
      all_return env (setup_steps @ load_steps @ content_wait # check_steps)"
proof -
  have fresh: "final_screenshot \<notin> set setup_steps" "final_screenshot \<notin> set load_steps"
    "final_screenshot \<noteq> content_wait" "final_screenshot \<noteq> timeout_screenshot"
    using final_screenshot_fresh by auto
  show ?thesis
  proof (cases "all_return env (setup_steps @ load_steps)")
    case False
    then have "calls (snd (test_timeline_editor env)) = performed env (setup_steps @ load_steps)"
      by (simp add: calls_test)
    moreover have "set (performed env (setup_steps @ load_steps)) \<subseteq> set (setup_steps @ load_steps)"
      by (rule set_performed)
    ultimately have "final_screenshot \<notin> set (calls (snd (test_timeline_editor env)))"
      using fresh by auto
    with False show ?thesis
      by (auto simp: all_return_append)
  next
    case True
    have c: "calls (snd (test_timeline_editor env)) =
        setup_steps @ load_steps @
        (case env content_wait of
           Some e \<Rightarrow> [content_wait, timeout_screenshot]
         | None \<Rightarrow> content_wait # performed env (check_steps @ [final_screenshot]))"
      using True by (simp add: calls_test performed_all_return)
    have split: "all_return env (setup_steps @ load_steps @ content_wait # check_steps) \<longleftrightarrow>
        env content_wait = None \<and> all_return env check_steps"
      using True by (simp add: all_return_def)
    show ?thesis
    proof (cases "env content_wait")
      case None
      then show ?thesis
        unfolding c split using fresh final_in_performed [of env] by simp
    next
      case (Some e)
      then show ?thesis
        unfolding c split using fresh by simp
    qed
  qed
qed


lemma returned_iff:
  "fst (test_timeline_editor env) = Returned \<longleftrightarrow>
      all_return env (setup_steps @ load_steps @ content_wait # check_steps @ [final_screenshot])"
proof -
  have "fst (test_timeline_editor env) = Returned \<longleftrightarrow>
      first_failure env (setup_steps @ load_steps) = None \<and> env content_wait = None \<and>
      first_failure env (check_steps @ [final_screenshot]) = None"
    by (simp add: outcome_test split: option.splits)
  then show ?thesis
    by (simp add: first_failure_None all_return_def)
qed

lemma trace_when_returned:
  assumes ok: "fst (test_timeline_editor env) = Returned"
  shows "test_timeline_editor env =
        (Returned, passed before_wait @ Call content_wait None # passed after_wait)"
proof -
  from ok have "all_return env
      (setup_steps @ load_steps @ content_wait # check_steps @ [final_screenshot])"
    by (simp add: returned_iff)
  then have all: "all_return env (setup_steps @ load_steps)"
    "env content_wait = None" "all_return env (actions_of after_wait)"
    by (simp_all add: all_return_def actions_after)
  show ?thesis
    by (simp add: test_after_load [of env, OF all(1)] wait_passes [of env, OF all(2)]
        passed_run [of env after_wait, OF all(3)])
qed


lemma files_written_Call:
  "files_written (Call a r # t) =
     (case a of
        page_screenshot p \<Rightarrow> (case r of None \<Rightarrow> p # files_written t | Some e \<Rightarrow> files_written t)
      | _ \<Rightarrow> files_written t)"
  by (cases a; cases r) simp_all

lemma straight_files:
  "p \<in> set (files_written (snd (block (map (run_step env) ss)))) \<longleftrightarrow>
     page_screenshot p \<in> set (performed env (actions_of ss)) \<and> env (page_screenshot p) = None"
proof (induction ss)
  case Nil
  show ?case by simp
next
  case (Cons s ss)
  obtain r t where b: "block (map (run_step env) ss) = (r, t)"
    by (cases "block (map (run_step env) ss)")
  have ih: "p \<in> set (files_written t) \<longleftrightarrow>
      page_screenshot p \<in> set (performed env (actions_of ss)) \<and> env (page_screenshot p) = None"
    using Cons by (simp add: b)
  show ?case
  proof (cases s)
    case (Say x)
    then show ?thesis
      by (simp add: py_print_def b ih)
  next
    case (Do a)
    show ?thesis
    proof (cases "env a")
      case None
      have "p \<in> set (files_written (Call a None # t)) \<longleftrightarrow>
          a = page_screenshot p \<or> p \<in> set (files_written t)"
        by (cases a) (auto simp: files_written_Call)
      with None Do show ?thesis
        by (auto simp: call_def b ih)
    next
      case (Some e)
      have "files_written [Call a (Some e)] = []"
        by (cases a) (simp_all add: files_written_Call)
      with Some Do show ?thesis
        by (auto simp: call_def)
    qed
  qed
qed

lemma final_file_iff:
  "''verification/verification.png'' \<in> set (files_written (snd (test_timeline_editor env))) \<longleftrightarrow>
     all_return env (setup_steps @ load_steps @ content_wait # check_steps @ [final_screenshot])"
proof (cases "all_return env (setup_steps @ load_steps)")
  case False
  then have "calls (snd (test_timeline_editor env)) = performed env (setup_steps @ load_steps)"
    by (simp add: calls_test)
  moreover have "set (performed env (setup_steps @ load_steps)) \<subseteq> set (setup_steps @ load_steps)"
    by (rule set_performed)
  ultimately have sub: "set (calls (snd (test_timeline_editor env))) \<subseteq>
      set (setup_steps @ load_steps @ content_wait # check_steps)"
    by auto
  have "files_written (snd (test_timeline_editor env)) = []"
  proof (rule files_written_Nil)
    fix p
    show "page_screenshot p \<notin> set (calls (snd (test_timeline_editor env)))"
      using sub no_screenshot_before_check [of p] by blast
  qed
  with False show ?thesis
    by (auto simp: all_return_append)
next
  case True
  show ?thesis
  proof (cases "env content_wait")
    case (Some e)
    have "files_written (snd (test_timeline_editor env)) =
        (case env timeout_screenshot of None \<Rightarrow> [''verification/timeout.png''] | Some e' \<Rightarrow> [])"
      by (simp add: test_after_load [of env, OF True] wait_fails [of env e, OF Some]
          files_written_append files_written_before timeout_screenshot_def content_wait_def
          split: option.splits)
    then have "''verification/verification.png'' \<notin> set (files_written (snd (test_timeline_editor env)))"
      by (simp split: option.splits)
    with Some show ?thesis
      by (simp add: all_return_def)
  next
    case None
    obtain r3 t3 where b3: "block (map (run_step env) after_wait) = (r3, t3)"
      by (cases "block (map (run_step env) after_wait)")
    have "files_written (snd (test_timeline_editor env)) = files_written t3"
      by (simp add: test_after_load [of env, OF True] wait_passes [of env, OF None] b3
          files_written_append files_written_before content_wait_def)
    moreover have "''verification/verification.png'' \<in> set (files_written t3) \<longleftrightarrow>
        final_screenshot \<in> set (performed env (check_steps @ [final_screenshot])) \<and>
        env final_screenshot = None"
      using straight_files [of "''verification/verification.png''" env after_wait]
      by (simp add: b3 actions_after final_screenshot_def)
    ultimately show ?thesis
      using True None by (simp add: final_in_performed all_return_def)
  qed
qed

section \<open>How the entry point runs\<close>

lemma browser_close_not_in_test:
  "browser_close \<notin> set (calls (snd (test_timeline_editor env)))"
proof -
  have "browser_close \<notin>
      set (setup_steps @ load_steps @ [content_wait, timeout_screenshot] @ check_steps @
           [final_screenshot])"
    by (simp add: setup_steps_def load_steps_def content_wait_def timeout_screenshot_def
        check_steps_def final_screenshot_def)
  then show ?thesis
    using calls_test_subset [of env] by blast
qed

text \<open>The entry point once the browser and the page are open.\<close>

lemma main_opened:
  assumes "env sync_playwright_enter = None" "env (launch True) = None" "env new_page = None"
    and t: "test_timeline_editor env = (r, t)"
  shows "main env =
     (case env sync_playwright_exit of
        Some e2 \<Rightarrow> Raised e2
      | None \<Rightarrow>
         (case env browser_close of
            Some e1 \<Rightarrow> Raised e1
          | None \<Rightarrow>
             (case r of
                Returned \<Rightarrow> Returned
              | Raised e \<Rightarrow> if isinstance_Exception e then Returned else Raised e)),
      [Call sync_playwright_enter None, Call (launch True) None, Call new_page None] @ t @
      (case r of
         Returned \<Rightarrow> []
       | Raised e \<Rightarrow> if isinstance_Exception e then [Print (''Error: '' @ str e)] else []) @
      [Call browser_close (env browser_close),
       Call sync_playwright_exit (env sync_playwright_exit)])"
  using assms(1-3)
  by (cases r; cases "env browser_close"; cases "env sync_playwright_exit")
     (simp_all add: main_def call_def py_print_def t)

text \<open>
  When opening the page fails, the \<^verbatim>\<open>try\<close> statement is never entered: the
  script leaves the Playwright context without a call of \<^verbatim>\<open>browser.close()\<close>.
\<close>

lemma main_new_page_fails:
  assumes "env sync_playwright_enter = None" "env (launch True) = None" "env new_page = Some e"
  shows "calls (snd (main env)) =
     [sync_playwright_enter, launch True, new_page, sync_playwright_exit]"
  using assms
  by (cases "test_timeline_editor env"; cases "env sync_playwright_exit";
      cases "env browser_close")
     (simp_all add: main_def call_def py_print_def)

lemma env_all_pass_None: "env_all_pass a = None"
  by (simp add: env_all_pass_def)

lemma env_server_down_opens:
  "env_server_down sync_playwright_enter = None" "env_server_down (launch True) = None"
  "env_server_down new_page = None" "env_server_down browser_close = None"
  "env_server_down sync_playwright_exit = None"
  by (simp_all add: env_server_down_def)

lemma env_interrupted_opens:
  "env_interrupted sync_playwright_enter = None" "env_interrupted (launch True) = None"
  "env_interrupted new_page = None" "env_interrupted browser_close = None"
  "env_interrupted sync_playwright_exit = None"
  by (simp_all add: env_interrupted_def)

lemma test_server_down: "fst (test_timeline_editor env_server_down) = Raised connection_refused"
proof -
  have "first_failure env_server_down (setup_steps @ load_steps) =
      Some (page_goto ''http://localhost:3000/timelines/tl1'', connection_refused)"
    by (simp add: env_server_down_def setup_steps_def load_steps_def)
  then show ?thesis
    by (simp add: outcome_test)
qed

lemma test_interrupted:
  "test_timeline_editor env_interrupted =
     (Raised (Exn KeyboardInterrupt []),
      passed (map Do setup_steps) @
      [Print ''Navigating...'',
       Call (page_goto ''http://localhost:3000/timelines/tl1'')
            (Some (Exn KeyboardInterrupt []))])"
  by (simp add: test_timeline_editor_def call_def py_print_def env_interrupted_def
      setup_steps_def)

text \<open>No call is made twice, so an environment can decide each call on its own.\<close>

lemma script_calls_distinct:
  "distinct
     ([sync_playwright_enter, launch True, new_page] @ setup_steps @ load_steps @
      [content_wait, timeout_screenshot] @ check_steps @
      [final_screenshot, browser_close, sync_playwright_exit])"
  by (simp add: setup_steps_def load_steps_def content_wait_def timeout_screenshot_def
      check_steps_def final_screenshot_def)

lemma env_wait_and_screenshot_fail_before:
  "all_return env_wait_and_screenshot_fail (setup_steps @ load_steps)"
  by (simp add: all_return_def env_wait_and_screenshot_fail_def setup_steps_def load_steps_def
      content_wait_def timeout_screenshot_def)

section \<open>The serialised fixtures\<close>

lemma string_of_int_100: "string_of_int 100 = ''100''"
  by (simp add: string_of_int_def string_of_nat.simps [of 100] string_of_nat.simps [of 10]
      string_of_nat.simps [of "Suc 0"])

lemma string_of_int_0: "string_of_int 0 = ''0''"
  by (simp add: string_of_int_def string_of_nat.simps [of 0])

lemma dumps_auth_refresh:
  \<open>json_dumps auth_refresh_data =
     ''{"record": {"id": "user1", "email": "test@test.com"}, "token": "test-token"}''\<close>
  by (simp add: json_dumps_def auth_refresh_data_def quote_def escape_char_def)

lemma dumps_workspaces:
  \<open>json_dumps workspaces_data =
     ''{"items": [{"id": "ws1", "name": "Test Workspace", "members": ["user1"]}]}''\<close>
  by (simp add: json_dumps_def workspaces_data_def quote_def escape_char_def)

lemma dumps_timeline:
  \<open>json_dumps timeline_data =
     ''{"id": "tl1", "name": "Test Timeline", "WorkspaceRef": "ws1", "clips": [], "duration": 100, "expand": {"TimelineClips_via_TimelineRef": []}}''\<close>
  by (simp add: json_dumps_def timeline_data_def quote_def escape_char_def string_of_int_100)

lemma dumps_media_clips:
  \<open>json_dumps media_clips_data = ''{"items": [], "totalItems": 0}''\<close>
  by (simp add: json_dumps_def media_clips_data_def quote_def escape_char_def string_of_int_0)

lemma dumps_recommendations:
  \<open>json_dumps recommendations_data = ''{"items": [], "totalItems": 0}''\<close>
  by (simp add: json_dumps_def recommendations_data_def quote_def escape_char_def string_of_int_0)

lemma stringify_authStore:
  \<open>JSON_stringify authStore =
     ''{"token":"test-token","model":{"id":"user1","email":"test@test.com"}}''\<close>
  by (simp add: JSON_stringify_def authStore_def quote_def escape_char_def)

section \<open>The claims\<close>

text \<open>
  C6. The function evaluated in the page stores, under the client storage key
  \<^verbatim>\<open>pocketbase_auth\<close>, the JSON serialisation of the object with the token
  \<^verbatim>\<open>test-token\<close> and the model with id \<^verbatim>\<open>user1\<close> and email
  \<^verbatim>\<open>test@test.com\<close>, and sets the cookie \<^verbatim>\<open>pb_auth\<close> to the same
  string; nothing else of the storage or of the cookies changes. The object has exactly
  the fields token, model.id and model.email.
\<close>

theorem inject_auth_storage_and_cookie:
  \<open>localStorage (run_page_function inject_auth_function st) =
       (localStorage st)(''pocketbase_auth'' \<mapsto> JSON_stringify authStore) \<and>
     cookies (run_page_function inject_auth_function st) =
       (cookies st)(''pb_auth'' \<mapsto> JSON_stringify authStore) \<and>
     JSON_stringify authStore =
       ''{"token":"test-token","model":{"id":"user1","email":"test@test.com"}}'' \<and>
     leaf_paths authStore = [[''token''], [''model'', ''id''], [''model'', ''email'']] \<and>
     field authStore ''token'' = Some (JStr ''test-token'') \<and>
     field authStore ''model'' =
       Some (JObj [(''id'', JStr ''user1''), (''email'', JStr ''test@test.com'')])\<close>
proof -
  have ls: "localStorage (inject_auth st) =
      (localStorage st)(''pocketbase_auth'' \<mapsto> JSON_stringify authStore)"
    by (simp add: inject_auth_def localStorage_setItem_def document_cookie_assign_def Let_def)
  have ck: "cookies (inject_auth st) = (cookies st)(''pb_auth'' \<mapsto> JSON_stringify authStore)"
    by (simp add: inject_auth_def localStorage_setItem_def document_cookie_assign_def Let_def
        stringify_authStore)
  have lp: "leaf_paths authStore = [[''token''], [''model'', ''id''], [''model'', ''email'']]"
    by (simp add: authStore_def)
  have f1: "field authStore ''token'' = Some (JStr ''test-token'')"
    by (simp add: authStore_def)
  have f2: "field authStore ''model'' =
      Some (JObj [(''id'', JStr ''user1''), (''email'', JStr ''test@test.com'')])"
    by (simp add: authStore_def)
  show ?thesis
    using ls ck lp f1 f2 stringify_authStore by simp
qed

text \<open>
  C1. Once the set-up calls have returned, the intercept rules registered are the six
  of \<open>routes\<close>, and for every request URL handed to them: the handlers of the five
  JSON patterns print a line and fulfil the request with status 200, content type
  \<^verbatim>\<open>application/json\<close> and the serialised fixture as body; the handler of
  \<^verbatim>\<open>**/api/files/**\<close> fulfils it with status 404 and no body. No handler lets the
  request continue to the network. (Which handler a URL reaches is decided by the
  library's pattern matching.)
\<close>

theorem route_handlers_fulfil:
  assumes "all_return env setup_steps"
  shows \<open>registered (snd (test_timeline_editor env)) = routes \<and>
    map (\<lambda>(p, h). (p, run_handler h url)) routes =
      [(''**/api/collections/users/auth-refresh'',
        [Log (''MOCKING: '' @ url),
         Fulfill \<lparr>status = 200, content_type = Some ''application/json'',
           body = Some ''{"record": {"id": "user1", "email": "test@test.com"}, "token": "test-token"}''\<rparr>]),
       (''**/api/collections/Workspaces/records**'',
        [Log (''MOCKING: '' @ url),
         Fulfill \<lparr>status = 200, content_type = Some ''application/json'',
           body = Some ''{"items": [{"id": "ws1", "name": "Test Workspace", "members": ["user1"]}]}''\<rparr>]),
       (''**/api/collections/Timelines/records/tl1*'',
        [Log (''MOCKING: '' @ url),
         Fulfill \<lparr>status = 200, content_type = Some ''application/json'',
           body = Some ''{"id": "tl1", "name": "Test Timeline", "WorkspaceRef": "ws1", "clips": [], "duration": 100, "expand": {"TimelineClips_via_TimelineRef": []}}''\<rparr>]),
       (''**/api/collections/MediaClips/records**'',
        [Log (''MOCKING: '' @ url),
         Fulfill \<lparr>status = 200, content_type = Some ''application/json'',
           body = Some ''{"items": [], "totalItems": 0}''\<rparr>]),
       (''**/api/collections/TimelineRecommendations/records**'',
        [Log (''MOCKING: '' @ url),
         Fulfill \<lparr>status = 200, content_type = Some ''application/json'',
           body = Some ''{"items": [], "totalItems": 0}''\<rparr>]),
       (''**/api/files/**'',
        [Fulfill \<lparr>status = 404, content_type = None, body = None\<rparr>])] \<and>
    list_all (\<lambda>(p, h). \<not> goes_to_network (run_handler h url)) routes \<and>
    body_text \<lparr>status = 404, content_type = None, body = None\<rparr> = []\<close>
proof -
  obtain r u where t: "test_timeline_editor env = (r, passed (map Do setup_steps) @ u)"
    and u: "set (calls u) \<subseteq>
       set (load_steps @ [content_wait, timeout_screenshot] @ check_steps @ [final_screenshot])"
    using assms by (rule test_after_setup)
  have "registered u = []"
  proof (rule registered_Nil)
    fix p h
    show "page_route p h \<notin> set (calls u)"
      using u no_route_later [of p h] by blast
  qed
  then have reg: "registered (snd (test_timeline_editor env)) = routes"
    by (simp add: t registered_append registered_setup)
  have resp: "map (\<lambda>(p, h). (p, run_handler h url)) routes =
      [(''**/api/collections/users/auth-refresh'', handle_json url auth_refresh_data),
       (''**/api/collections/Workspaces/records**'', handle_json url workspaces_data),
       (''**/api/collections/Timelines/records/tl1*'', handle_json url timeline_data),
       (''**/api/collections/MediaClips/records**'', handle_json url media_clips_data),
       (''**/api/collections/TimelineRecommendations/records**'',
          handle_json url recommendations_data),
       (''**/api/files/**'',
          [Fulfill \<lparr>status = 404, content_type = None, body = None\<rparr>])]"
    by (simp add: routes_def)
  have net: "list_all (\<lambda>(p, h). \<not> goes_to_network (run_handler h url)) routes"
    by (simp add: routes_def handle_json_def)
  have empty: "body_text \<lparr>status = 404, content_type = None, body = None\<rparr> = []"
    by (simp add: body_text_def)
  show ?thesis
    unfolding resp
    using reg net empty
    by (simp add: handle_json_def dumps_auth_refresh dumps_workspaces dumps_timeline
        dumps_media_clips dumps_recommendations)
qed

theorem route_handlers_fulfil_witness:
  \<open>registered (snd (test_timeline_editor env_all_pass)) = routes \<and>
    map (\<lambda>(p, h). (p, run_handler h ''http://localhost:8090/api/files/ab/cd/thumb.png'')) (drop 5 routes) =
      [(''**/api/files/**'',
        [Fulfill \<lparr>status = 404, content_type = None, body = None\<rparr>])] \<and>
    map (\<lambda>(p, h). (p, run_handler h ''http://localhost:8090/api/collections/MediaClips/records?page=1''))
      (take 1 (drop 3 routes)) =
      [(''**/api/collections/MediaClips/records**'',
        [Log ''MOCKING: http://localhost:8090/api/collections/MediaClips/records?page=1'',
         Fulfill \<lparr>status = 200, content_type = Some ''application/json'',
           body = Some ''{"items": [], "totalItems": 0}''\<rparr>])]\<close>
proof -
  have ok: "all_return env_all_pass setup_steps"
    by (rule all_return_all_pass)
  have "registered (snd (test_timeline_editor env_all_pass)) = routes"
    using route_handlers_fulfil [OF ok] by blast
  moreover have "map (\<lambda>(p, h). (p, run_handler h ''http://localhost:8090/api/files/ab/cd/thumb.png'')) (drop 5 routes) =
      [(''**/api/files/**'',
        [Fulfill \<lparr>status = 404, content_type = None, body = None\<rparr>])]"
    by (simp add: routes_def)
  moreover have \<open>map (\<lambda>(p, h). (p, run_handler h ''http://localhost:8090/api/collections/MediaClips/records?page=1''))
      (take 1 (drop 3 routes)) =
      [(''**/api/collections/MediaClips/records**'',
        [Log ''MOCKING: http://localhost:8090/api/collections/MediaClips/records?page=1'',
         Fulfill \<lparr>status = 200, content_type = Some ''application/json'',
           body = Some ''{"items": [], "totalItems": 0}''\<rparr>])]\<close>
    by (simp add: routes_def handle_json_def dumps_media_clips)
  ultimately show ?thesis by simp
qed

text \<open>
  C7. In every run, whatever fails: when the function makes a call that is not the
  registration of a listener or of an intercept rule (the navigation to
  \<^verbatim>\<open>http://localhost:3000/timelines/tl1\<close> is the first such call), the rules
  registered before that call are the six of \<open>routes\<close>, each registration having
  returned. So no call that can make the page issue a request precedes a registration.
\<close>

theorem routes_registered_before_navigation:
  assumes i: "i < length (snd (test_timeline_editor env))"
    and ev: "snd (test_timeline_editor env) ! i = Call a r"
    and a: "\<not> is_setup a"
  shows "registered (take i (snd (test_timeline_editor env))) = routes"
proof (cases "all_return env setup_steps")
  case False
  then have "calls (snd (test_timeline_editor env)) = performed env setup_steps"
    by (simp add: calls_test performed_append all_return_append)
  then have "set (calls (snd (test_timeline_editor env))) \<subseteq> set setup_steps"
    using set_performed [of env setup_steps] by simp
  moreover have "a \<in> set (calls (snd (test_timeline_editor env)))"
    using i ev by (rule nth_calls)
  ultimately have "is_setup a"
    using is_setup_setup_steps by blast
  with a show ?thesis by simp
next
  case True
  then obtain r' u where t: "test_timeline_editor env = (r', passed (map Do setup_steps) @ u)"
    and u: "set (calls u) \<subseteq>
       set (load_steps @ [content_wait, timeout_screenshot] @ check_steps @ [final_screenshot])"
    by (rule test_after_setup)
  let ?S = "passed (map Do setup_steps)"
  have ge: "length ?S \<le> i"
  proof (rule ccontr)
    assume "\<not> length ?S \<le> i"
    then have lt: "i < length ?S" by simp
    then have "?S ! i = Call a r"
      using ev by (simp add: t nth_append)
    with lt have "a \<in> set (calls ?S)" by (rule nth_calls)
    then have "is_setup a"
      by (simp add: calls_passed actions_of_Do is_setup_setup_steps)
    with a show False by simp
  qed
  have "registered (take (i - length ?S) u) = []"
  proof (rule registered_Nil)
    fix p h
    show "page_route p h \<notin> set (calls (take (i - length ?S) u))"
      using u no_route_later [of p h] set_calls_take [of "i - length ?S" u] by blast
  qed
  with ge show ?thesis
    by (simp add: t registered_append registered_setup)
qed

theorem routes_registered_before_navigation_witness:
  "9 < length (snd (test_timeline_editor env_all_pass)) \<and>
   snd (test_timeline_editor env_all_pass) ! 9 =
     Call (page_goto ''http://localhost:3000/timelines/tl1'') None \<and>
   \<not> is_setup (page_goto ''http://localhost:3000/timelines/tl1'') \<and>
   registered (take 9 (snd (test_timeline_editor env_all_pass))) = routes"
proof -
  have len: "9 < length (snd (test_timeline_editor env_all_pass))"
    by (simp add: trace_all_pass before_wait_def after_wait_def setup_steps_def)
  have ev: "snd (test_timeline_editor env_all_pass) ! 9 =
      Call (page_goto ''http://localhost:3000/timelines/tl1'') None"
    by (simp add: trace_all_pass before_wait_def after_wait_def setup_steps_def)
  have ns: "\<not> is_setup (page_goto ''http://localhost:3000/timelines/tl1'')"
    by simp
  show ?thesis
    using len ev ns routes_registered_before_navigation [OF len ev ns] by simp
qed

text \<open>
  C2, as the code has it. The claim is about every step that waits with a timeout, and
  the waits after the first one (\<^verbatim>\<open>expect(...).to_be_visible()\<close> with the
  library's default timeout) are outside the \<^verbatim>\<open>try\<close> statement: when the option
  \<^verbatim>\<open>Creation Time\<close> never shows, the function raises and no screenshot is taken.
\<close>

theorem later_wait_timeout_has_no_screenshot:
  "fst (test_timeline_editor env_creation_time_missing) = Raised creation_time_timeout \<and>
   Call (expect_visible (get_by_role ''option'' ''Creation Time'') None)
        (Some creation_time_timeout)
     \<in> set (snd (test_timeline_editor env_creation_time_missing)) \<and>
   page_screenshot ''verification/timeout.png''
     \<notin> set (calls (snd (test_timeline_editor env_creation_time_missing))) \<and>
   files_written (snd (test_timeline_editor env_creation_time_missing)) = []"
  by (simp add: test_timeline_editor_def wait_for_content_def try_except.simps call_def
      py_print_def env_creation_time_missing_def settings_btn_def)

text \<open>
  C2, amended. When the steps up to the reload have returned and the wait for
  \<^verbatim>\<open>Test Timeline\<close> (the one wait given a timeout, 10 seconds) raises, the last
  things the function does are to print a line and to call
  \<^verbatim>\<open>page.screenshot(path="verification/timeout.png")\<close>; then the failure leaves
  the function. The file is written when that call returns.
\<close>

theorem content_wait_failure_takes_screenshot:
  assumes "all_return env (setup_steps @ load_steps)"
    and "env content_wait = Some e"
  shows "snd (test_timeline_editor env) =
           passed before_wait @
           [Call content_wait (Some e),
            Print ''Timeout. Taking screenshot...'',
            Call (page_screenshot ''verification/timeout.png'')
                 (env (page_screenshot ''verification/timeout.png''))] \<and>
         fst (test_timeline_editor env) \<noteq> Returned \<and>
         files_written (snd (test_timeline_editor env)) =
           (case env (page_screenshot ''verification/timeout.png'') of
              None \<Rightarrow> [''verification/timeout.png'']
            | Some e' \<Rightarrow> [])"
proof -
  have t: "test_timeline_editor env =
      (case env timeout_screenshot of None \<Rightarrow> Raised e | Some e' \<Rightarrow> Raised e',
       passed before_wait @
       [Call content_wait (Some e), Print ''Timeout. Taking screenshot...'',
        Call timeout_screenshot (env timeout_screenshot)])"
    by (simp add: test_after_load [OF assms(1)] wait_fails [of env e, OF assms(2)] split: option.splits)
  show ?thesis
    by (simp add: t files_written_append files_written_before timeout_screenshot_def
        content_wait_def split: option.splits)
qed

theorem content_wait_failure_takes_screenshot_witness:
  "snd (test_timeline_editor env_content_missing) =
     passed before_wait @
     [Call content_wait (Some content_timeout),
      Print ''Timeout. Taking screenshot...'',
      Call (page_screenshot ''verification/timeout.png'') None] \<and>
   fst (test_timeline_editor env_content_missing) \<noteq> Returned \<and>
   files_written (snd (test_timeline_editor env_content_missing)) =
     [''verification/timeout.png'']"
proof -
  have w: "env_content_missing content_wait = Some content_timeout"
    by (simp add: env_content_missing_def)
  have s: "env_content_missing (page_screenshot ''verification/timeout.png'') = None"
    by (simp add: env_content_missing_def content_wait_def)
  note th = content_wait_failure_takes_screenshot [OF env_content_missing_before w]
  have "files_written (snd (test_timeline_editor env_content_missing)) =
      [''verification/timeout.png'']"
    using th [THEN conjunct2, THEN conjunct2] by (simp add: s)
  then show ?thesis
    using th [THEN conjunct1] th [THEN conjunct2, THEN conjunct1] by (simp add: s)
qed

text \<open>
  C9, as the code has it. The claim has the original exception raised again whenever the
  wait raises. The screenshot stands between the two: when the wait fails and the
  diagnostic screenshot cannot be written either, the exception that leaves the function
  is the screenshot's, not the wait's, and no file is written.
\<close>

theorem failing_screenshot_replaces_exception:
  "Call content_wait (Some content_timeout)
     \<in> set (snd (test_timeline_editor env_wait_and_screenshot_fail)) \<and>
   fst (test_timeline_editor env_wait_and_screenshot_fail) = Raised disk_full \<and>
   disk_full \<noteq> content_timeout \<and>
   files_written (snd (test_timeline_editor env_wait_and_screenshot_fail)) = []"
proof -
  have w: "env_wait_and_screenshot_fail content_wait = Some content_timeout"
    by (simp add: env_wait_and_screenshot_fail_def)
  have s: "env_wait_and_screenshot_fail timeout_screenshot = Some disk_full"
    by (simp add: env_wait_and_screenshot_fail_def content_wait_def timeout_screenshot_def)
  have t: "test_timeline_editor env_wait_and_screenshot_fail =
      (Raised disk_full,
       passed before_wait @
       [Call content_wait (Some content_timeout), Print ''Timeout. Taking screenshot...'',
        Call timeout_screenshot (Some disk_full)])"
    by (simp add: test_after_load [OF env_wait_and_screenshot_fail_before]
        wait_fails [of env_wait_and_screenshot_fail content_timeout, OF w] s)
  have d: "disk_full \<noteq> content_timeout"
    by (simp add: disk_full_def content_timeout_def)
  show ?thesis
    using d
    by (simp add: t files_written_append files_written_before timeout_screenshot_def
        content_wait_def)
qed

text \<open>
  C9, amended. The handler around the wait for \<^verbatim>\<open>Test Timeline\<close> is a bare
  \<^verbatim>\<open>except\<close>: whatever exception the wait raises, also one that does not derive
  from \<^verbatim>\<open>Exception\<close>, the function next prints a line and calls
  \<^verbatim>\<open>page.screenshot(path="verification/timeout.png")\<close>, and does nothing after it.
  If that call returns, the file is written and the exception that leaves the function
  is the one the wait raised, unchanged; if that call raises, its exception leaves the
  function instead and no file is written.
\<close>

theorem bare_except_screenshot_then_reraise:
  assumes "all_return env (setup_steps @ load_steps)"
    and "env (expect_visible (get_by_text ''Test Timeline'') (Some 10000)) = Some e"
  shows "snd (test_timeline_editor env) =
           passed before_wait @
           [Call (expect_visible (get_by_text ''Test Timeline'') (Some 10000)) (Some e),
            Print ''Timeout. Taking screenshot...'',
            Call (page_screenshot ''verification/timeout.png'')
                 (env (page_screenshot ''verification/timeout.png''))] \<and>
         fst (test_timeline_editor env) =
           (case env (page_screenshot ''verification/timeout.png'') of
              None \<Rightarrow> Raised e
            | Some e' \<Rightarrow> Raised e') \<and>
         files_written (snd (test_timeline_editor env)) =
           (case env (page_screenshot ''verification/timeout.png'') of
              None \<Rightarrow> [''verification/timeout.png'']
            | Some e' \<Rightarrow> [])"
proof -
  have w: "env content_wait = Some e"
    using assms(2) by (simp add: content_wait_def)
  have t: "test_timeline_editor env =
      (case env timeout_screenshot of None \<Rightarrow> Raised e | Some e' \<Rightarrow> Raised e',
       passed before_wait @
       [Call content_wait (Some e), Print ''Timeout. Taking screenshot...'',
        Call timeout_screenshot (env timeout_screenshot)])"
    by (simp add: test_after_load [OF assms(1)] wait_fails [of env e, OF w] split: option.splits)
  show ?thesis
    by (simp add: t files_written_append files_written_before timeout_screenshot_def
        content_wait_def split: option.splits)
qed

theorem bare_except_screenshot_then_reraise_witness:
  "\<not> isinstance_Exception (Exn KeyboardInterrupt []) \<and>
   snd (test_timeline_editor env_wait_interrupted) =
     passed before_wait @
     [Call (expect_visible (get_by_text ''Test Timeline'') (Some 10000))
           (Some (Exn KeyboardInterrupt [])),
      Print ''Timeout. Taking screenshot...'',
      Call (page_screenshot ''verification/timeout.png'') None] \<and>
   fst (test_timeline_editor env_wait_interrupted) = Raised (Exn KeyboardInterrupt []) \<and>
   files_written (snd (test_timeline_editor env_wait_interrupted)) =
     [''verification/timeout.png'']"
proof -
  have w: "env_wait_interrupted (expect_visible (get_by_text ''Test Timeline'') (Some 10000)) =
      Some (Exn KeyboardInterrupt [])"
    by (simp add: env_wait_interrupted_def content_wait_def)
  have s: "env_wait_interrupted (page_screenshot ''verification/timeout.png'') = None"
    by (simp add: env_wait_interrupted_def content_wait_def)
  note th = bare_except_screenshot_then_reraise [OF env_wait_interrupted_before w]
  have 0: "\<not> isinstance_Exception (Exn KeyboardInterrupt [])"
    by (simp add: isinstance_Exception_def)
  have 1: "snd (test_timeline_editor env_wait_interrupted) =
     passed before_wait @
     [Call (expect_visible (get_by_text ''Test Timeline'') (Some 10000))
           (Some (Exn KeyboardInterrupt [])),
      Print ''Timeout. Taking screenshot...'',
      Call (page_screenshot ''verification/timeout.png'') None]"
    using th [THEN conjunct1] by (simp only: s)
  have 2: "fst (test_timeline_editor env_wait_interrupted) = Raised (Exn KeyboardInterrupt [])"
    using th [THEN conjunct2, THEN conjunct1] by (simp only: s option.case)
  have 3: "files_written (snd (test_timeline_editor env_wait_interrupted)) =
     [''verification/timeout.png'']"
    using th [THEN conjunct2, THEN conjunct2] by (simp only: s option.case)
  show ?thesis
    by (intro conjI 0 1 2 3)
qed

text \<open>
  C10. When the steps up to and including the wait for \<^verbatim>\<open>Test Timeline\<close> have
  returned and a later step is the first to raise (in particular one of the four later
  assertions), the function raises that exception and takes no screenshot: neither
  \<^verbatim>\<open>verification/timeout.png\<close> nor \<^verbatim>\<open>verification/verification.png\<close> is
  written.
\<close>

theorem later_failure_writes_no_screenshot:
  assumes "all_return env (setup_steps @ load_steps @ [content_wait])"
    and "first_failure env check_steps = Some (a, e)"
  shows "fst (test_timeline_editor env) = Raised e \<and>
         page_screenshot ''verification/timeout.png''
           \<notin> set (calls (snd (test_timeline_editor env))) \<and>
         page_screenshot ''verification/verification.png''
           \<notin> set (calls (snd (test_timeline_editor env))) \<and>
         files_written (snd (test_timeline_editor env)) = []"
proof -
  have pre: "all_return env (setup_steps @ load_steps)" and w: "env content_wait = None"
    using assms(1) by (simp_all add: all_return_def)
  have ff: "first_failure env (setup_steps @ load_steps) = None"
    using pre by (simp add: first_failure_None)
  have ff': "first_failure env (check_steps @ [final_screenshot]) = Some (a, e)"
    by (simp add: first_failure_append assms(2))
  have out: "fst (test_timeline_editor env) = Raised e"
    by (simp add: outcome_test ff w ff')
  have "calls (snd (test_timeline_editor env)) =
      setup_steps @ load_steps @ content_wait # performed env check_steps"
    using pre by (simp add: calls_test w performed_all_return performed_failing [OF assms(2)])
  moreover have "set (performed env check_steps) \<subseteq> set check_steps"
    by (rule set_performed)
  ultimately have sub: "set (calls (snd (test_timeline_editor env))) \<subseteq>
      set (setup_steps @ load_steps @ content_wait # check_steps)"
    by auto
  have none: "page_screenshot p \<notin> set (calls (snd (test_timeline_editor env)))" for p
    using sub no_screenshot_before_check [of p] by blast
  have "files_written (snd (test_timeline_editor env)) = []"
    by (rule files_written_Nil) (rule none)
  with out none show ?thesis by simp
qed

theorem later_failure_writes_no_screenshot_witness:
  "expect_visible (get_by_role ''option'' ''Creation Time'') None \<in> set later_assertions \<and>
   fst (test_timeline_editor env_creation_time_missing) = Raised creation_time_timeout \<and>
   page_screenshot ''verification/timeout.png''
     \<notin> set (calls (snd (test_timeline_editor env_creation_time_missing))) \<and>
   page_screenshot ''verification/verification.png''
     \<notin> set (calls (snd (test_timeline_editor env_creation_time_missing))) \<and>
   files_written (snd (test_timeline_editor env_creation_time_missing)) = []"
proof -
  have ff: "first_failure env_creation_time_missing check_steps =
      Some (expect_visible (get_by_role ''option'' ''Creation Time'') None,
            creation_time_timeout)"
    by (simp add: env_creation_time_missing_def check_steps_def)
  show ?thesis
    using later_failure_writes_no_screenshot [OF env_creation_time_missing_before ff]
    by (simp add: later_assertions_def)
qed

text \<open>
  C5. Once the steps up to the reload have returned, the calls that follow are, in this
  order: the wait for the text \<^verbatim>\<open>Test Timeline\<close> with a timeout of 10000 ms; the
  click on \<^verbatim>\<open>text=Recent\<close>; the assertion that the option \<^verbatim>\<open>Creation Time\<close> is
  visible; the key \<^verbatim>\<open>Escape\<close>; the assertion that the element titled
  \<^verbatim>\<open>Settings\<close> is visible and the click on it; the assertions that the texts
  \<^verbatim>\<open>Recommendation Settings\<close> and \<^verbatim>\<open>Active Strategies\<close> are visible; the final
  screenshot. The sequence stops at the first call that raises, and the exception of
  that call is how the function ends.
\<close>

theorem assertion_sequence_in_order:
  assumes "all_return env (setup_steps @ load_steps)"
  shows "calls (snd (test_timeline_editor env)) =
      setup_steps @ load_steps @
      (case env (expect_visible (get_by_text ''Test Timeline'') (Some 10000)) of
         None \<Rightarrow>
           expect_visible (get_by_text ''Test Timeline'') (Some 10000) #
           performed env
             [page_click ''text=Recent'',
              expect_visible (get_by_role ''option'' ''Creation Time'') None,
              keyboard_press ''Escape'',
              expect_visible (get_by_title ''Settings'') None,
              locator_click (get_by_title ''Settings''),
              expect_visible (get_by_text ''Recommendation Settings'') None,
              expect_visible (get_by_text ''Active Strategies'') None,
              page_screenshot ''verification/verification.png'']
       | Some e \<Rightarrow>
           [expect_visible (get_by_text ''Test Timeline'') (Some 10000),
            page_screenshot ''verification/timeout.png'']) \<and>
    fst (test_timeline_editor env) =
      (case env (expect_visible (get_by_text ''Test Timeline'') (Some 10000)) of
         None \<Rightarrow>
           (case first_failure env
                   [page_click ''text=Recent'',
                    expect_visible (get_by_role ''option'' ''Creation Time'') None,
                    keyboard_press ''Escape'',
                    expect_visible (get_by_title ''Settings'') None,
                    locator_click (get_by_title ''Settings''),
                    expect_visible (get_by_text ''Recommendation Settings'') None,
                    expect_visible (get_by_text ''Active Strategies'') None,
                    page_screenshot ''verification/verification.png''] of
              None \<Rightarrow> Returned
            | Some (a, e) \<Rightarrow> Raised e)
       | Some e \<Rightarrow>
           (case env (page_screenshot ''verification/timeout.png'') of
              None \<Rightarrow> Raised e
            | Some e' \<Rightarrow> Raised e'))"
proof -
  have steps: "check_steps @ [final_screenshot] =
      [page_click ''text=Recent'',
       expect_visible (get_by_role ''option'' ''Creation Time'') None,
       keyboard_press ''Escape'',
       expect_visible (get_by_title ''Settings'') None,
       locator_click (get_by_title ''Settings''),
       expect_visible (get_by_text ''Recommendation Settings'') None,
       expect_visible (get_by_text ''Active Strategies'') None,
       page_screenshot ''verification/verification.png'']"
    by (simp add: check_steps_def final_screenshot_def)
  have ff: "first_failure env (setup_steps @ load_steps) = None"
    using assms by (simp add: first_failure_None)
  have c: "calls (snd (test_timeline_editor env)) =
      setup_steps @ load_steps @
      (case env content_wait of
         None \<Rightarrow> content_wait # performed env (check_steps @ [final_screenshot])
       | Some e \<Rightarrow> [content_wait, timeout_screenshot])"
    using assms by (simp add: calls_test performed_all_return split: option.splits)
  have r: "fst (test_timeline_editor env) =
      (case env content_wait of
         None \<Rightarrow>
           (case first_failure env (check_steps @ [final_screenshot]) of
              None \<Rightarrow> Returned
            | Some (a, e) \<Rightarrow> Raised e)
       | Some e \<Rightarrow>
           (case env timeout_screenshot of None \<Rightarrow> Raised e | Some e' \<Rightarrow> Raised e'))"
    by (simp add: outcome_test ff split: option.splits)
  show ?thesis
  proof (rule conjI)
    show "calls (snd (test_timeline_editor env)) =
      setup_steps @ load_steps @
      (case env (expect_visible (get_by_text ''Test Timeline'') (Some 10000)) of
         None \<Rightarrow>
           expect_visible (get_by_text ''Test Timeline'') (Some 10000) #
           performed env
             [page_click ''text=Recent'',
              expect_visible (get_by_role ''option'' ''Creation Time'') None,
              keyboard_press ''Escape'',
              expect_visible (get_by_title ''Settings'') None,
              locator_click (get_by_title ''Settings''),
              expect_visible (get_by_text ''Recommendation Settings'') None,
              expect_visible (get_by_text ''Active Strategies'') None,
              page_screenshot ''verification/verification.png'']
       | Some e \<Rightarrow>
           [expect_visible (get_by_text ''Test Timeline'') (Some 10000),
            page_screenshot ''verification/timeout.png''])"
      using c unfolding steps content_wait_def timeout_screenshot_def .
    show "fst (test_timeline_editor env) =
      (case env (expect_visible (get_by_text ''Test Timeline'') (Some 10000)) of
         None \<Rightarrow>
           (case first_failure env
                   [page_click ''text=Recent'',
                    expect_visible (get_by_role ''option'' ''Creation Time'') None,
                    keyboard_press ''Escape'',
                    expect_visible (get_by_title ''Settings'') None,
                    locator_click (get_by_title ''Settings''),
                    expect_visible (get_by_text ''Recommendation Settings'') None,
                    expect_visible (get_by_text ''Active Strategies'') None,
                    page_screenshot ''verification/verification.png''] of
              None \<Rightarrow> Returned
            | Some (a, e) \<Rightarrow> Raised e)
       | Some e \<Rightarrow>
           (case env (page_screenshot ''verification/timeout.png'') of
              None \<Rightarrow> Raised e
            | Some e' \<Rightarrow> Raised e'))"
      using r unfolding steps content_wait_def timeout_screenshot_def .
  qed
qed

theorem assertion_sequence_in_order_witness:
  "calls (snd (test_timeline_editor env_all_pass)) =
      setup_steps @ load_steps @
      [expect_visible (get_by_text ''Test Timeline'') (Some 10000),
       page_click ''text=Recent'',
       expect_visible (get_by_role ''option'' ''Creation Time'') None,
       keyboard_press ''Escape'',
       expect_visible (get_by_title ''Settings'') None,
       locator_click (get_by_title ''Settings''),
       expect_visible (get_by_text ''Recommendation Settings'') None,
       expect_visible (get_by_text ''Active Strategies'') None,
       page_screenshot ''verification/verification.png''] \<and>
   fst (test_timeline_editor env_all_pass) = Returned"
proof -
  have ok: "all_return env_all_pass (setup_steps @ load_steps)"
    by (rule all_return_all_pass)
  have e: "env_all_pass a = None" for a
    by (simp add: env_all_pass_def)
  note th = assertion_sequence_in_order [OF ok]
  show ?thesis
    using th [THEN conjunct1] th [THEN conjunct2] by (simp add: e)
qed

text \<open>
  C8, as the code has it. The claim has the file written whenever every navigation,
  injection and assertion step completes, and the screenshot as the last action. When
  every step before the final screenshot returns and the screenshot call itself raises,
  no file is written and the function raises; and on the run in which every call
  returns, the last thing the function does is to print \<^verbatim>\<open>Screenshot taken.\<close>
\<close>

theorem final_screenshot_failure_leaves_no_file:
  "all_return env_final_screenshot_fails
     (setup_steps @ load_steps @ content_wait # check_steps) \<and>
   fst (test_timeline_editor env_final_screenshot_fails) = Raised screenshot_failure \<and>
   files_written (snd (test_timeline_editor env_final_screenshot_fails)) = [] \<and>
   last (snd (test_timeline_editor env_all_pass)) = Print ''Screenshot taken.''"
proof -
  have 1: "all_return env_final_screenshot_fails
      (setup_steps @ load_steps @ content_wait # check_steps)"
    by (simp add: all_return_def env_final_screenshot_fails_def setup_steps_def load_steps_def
        content_wait_def check_steps_def final_screenshot_def)
  have 2: "fst (test_timeline_editor env_final_screenshot_fails) = Raised screenshot_failure \<and>
      files_written (snd (test_timeline_editor env_final_screenshot_fails)) = []"
    by (simp add: test_timeline_editor_def wait_for_content_def call_def py_print_def
        env_final_screenshot_fails_def final_screenshot_def settings_btn_def)
  have "snd (test_timeline_editor env_all_pass) =
      (passed before_wait @ Call content_wait None # passed (butlast (butlast after_wait))) @
      [Call (page_screenshot ''verification/verification.png'') None,
       Print ''Screenshot taken.'']"
    by (simp only: trace_all_pass snd_conv after_wait_ends append_assoc append_Cons)
  moreover have "last (xs @ [a, b]) = b" for xs :: "event list" and a b
    by simp
  ultimately have 3: "last (snd (test_timeline_editor env_all_pass)) = Print ''Screenshot taken.''"
    by (simp only:)
  show ?thesis
    by (intro conjI 1 2 [THEN conjunct1] 2 [THEN conjunct2] 3)
qed

text \<open>
  C8, amended. The call \<^verbatim>\<open>page.screenshot(path="verification/verification.png")\<close>
  is made if and only if every call before it (set-up, navigation, injection, reload,
  the wait and the checks) has returned. The file is written if and only if that call
  returns as well, and that is also exactly when the function returns. When the function
  returns, the screenshot is its last call: only the line \<^verbatim>\<open>Screenshot taken.\<close>
  is printed after it, and no other file has been written.
\<close>

theorem final_screenshot_file_iff_all_calls_return:
  "(page_screenshot ''verification/verification.png''
      \<in> set (calls (snd (test_timeline_editor env))) \<longleftrightarrow>
    all_return env (setup_steps @ load_steps @ content_wait # check_steps)) \<and>
   (''verification/verification.png''
      \<in> set (files_written (snd (test_timeline_editor env))) \<longleftrightarrow>
    all_return env
      (setup_steps @ load_steps @ content_wait # check_steps @
       [page_screenshot ''verification/verification.png''])) \<and>
   (fst (test_timeline_editor env) = Returned \<longleftrightarrow>
    all_return env
      (setup_steps @ load_steps @ content_wait # check_steps @
       [page_screenshot ''verification/verification.png''])) \<and>
   (fst (test_timeline_editor env) = Returned \<longrightarrow>
    (\<exists>before. snd (test_timeline_editor env) =
       before @ [Call (page_screenshot ''verification/verification.png'') None,
                 Print ''Screenshot taken.'']) \<and>
    files_written (snd (test_timeline_editor env)) = [''verification/verification.png''])"
proof (intro conjI impI)
  show "page_screenshot ''verification/verification.png''
      \<in> set (calls (snd (test_timeline_editor env))) \<longleftrightarrow>
    all_return env (setup_steps @ load_steps @ content_wait # check_steps)"
    using final_called_iff [of env] unfolding final_screenshot_def .
  show "''verification/verification.png''
      \<in> set (files_written (snd (test_timeline_editor env))) \<longleftrightarrow>
    all_return env
      (setup_steps @ load_steps @ content_wait # check_steps @
       [page_screenshot ''verification/verification.png''])"
    using final_file_iff [of env] unfolding final_screenshot_def .
  show "fst (test_timeline_editor env) = Returned \<longleftrightarrow>
    all_return env
      (setup_steps @ load_steps @ content_wait # check_steps @
       [page_screenshot ''verification/verification.png''])"
    using returned_iff [of env] unfolding final_screenshot_def .
next
  assume ok: "fst (test_timeline_editor env) = Returned"
  then have t: "test_timeline_editor env =
      (Returned, passed before_wait @ Call content_wait None # passed after_wait)"
    by (rule trace_when_returned)
  have "snd (test_timeline_editor env) =
      passed before_wait @ Call content_wait None # passed after_wait"
    by (simp only: t snd_conv)
  also have "\<dots> =
      (passed before_wait @ Call content_wait None # passed (butlast (butlast after_wait))) @
      [Call (page_screenshot ''verification/verification.png'') None,
       Print ''Screenshot taken.'']"
    by (simp only: after_wait_ends append_assoc append_Cons)
  finally have e: "snd (test_timeline_editor env) =
      (passed before_wait @ Call content_wait None # passed (butlast (butlast after_wait))) @
      [Call (page_screenshot ''verification/verification.png'') None,
       Print ''Screenshot taken.'']" .
  show "\<exists>before. snd (test_timeline_editor env) =
      before @ [Call (page_screenshot ''verification/verification.png'') None,
                Print ''Screenshot taken.'']"
    by (rule exI [where x = "passed before_wait @ Call content_wait None #
          passed (butlast (butlast after_wait))"]) (rule e)
next
  assume ok: "fst (test_timeline_editor env) = Returned"
  then have t: "test_timeline_editor env =
      (Returned, passed before_wait @ Call content_wait None # passed after_wait)"
    by (rule trace_when_returned)
  show "files_written (snd (test_timeline_editor env)) = [''verification/verification.png'']"
    by (simp add: t files_written_append files_written_before files_written_after
        content_wait_def)
qed

theorem final_screenshot_file_iff_all_calls_return_witness:
  "page_screenshot ''verification/verification.png''
     \<in> set (calls (snd (test_timeline_editor env_all_pass))) \<and>
   fst (test_timeline_editor env_all_pass) = Returned \<and>
   (\<exists>before. snd (test_timeline_editor env_all_pass) =
      before @ [Call (page_screenshot ''verification/verification.png'') None,
                Print ''Screenshot taken.'']) \<and>
   files_written (snd (test_timeline_editor env_all_pass)) = [''verification/verification.png''] \<and>
   page_screenshot ''verification/verification.png''
     \<notin> set (calls (snd (test_timeline_editor env_server_down))) \<and>
   fst (test_timeline_editor env_server_down) \<noteq> Returned \<and>
   page_screenshot ''verification/verification.png''
     \<in> set (calls (snd (test_timeline_editor env_final_screenshot_fails))) \<and>
   ''verification/verification.png''
     \<notin> set (files_written (snd (test_timeline_editor env_final_screenshot_fails))) \<and>
   fst (test_timeline_editor env_final_screenshot_fails) \<noteq> Returned"
proof -
  note pass = final_screenshot_file_iff_all_calls_return [of env_all_pass]
  note down = final_screenshot_file_iff_all_calls_return [of env_server_down]
  note fails = final_screenshot_file_iff_all_calls_return [of env_final_screenshot_fails]
  have bad: "\<not> all_return env_server_down (setup_steps @ load_steps @ bs)" for bs
    by (simp add: all_return_def env_server_down_def load_steps_def)
  have before: "all_return env_final_screenshot_fails
      (setup_steps @ load_steps @ content_wait # check_steps)"
    by (simp add: all_return_def env_final_screenshot_fails_def setup_steps_def load_steps_def
        content_wait_def check_steps_def final_screenshot_def)
  have final: "\<not> all_return env_final_screenshot_fails
      (setup_steps @ load_steps @ content_wait # check_steps @
       [page_screenshot ''verification/verification.png''])"
    by (simp add: all_return_def env_final_screenshot_fails_def final_screenshot_def)
  have r: "fst (test_timeline_editor env_all_pass) = Returned"
    using pass [THEN conjunct2, THEN conjunct2, THEN conjunct1]
    by (simp add: all_return_all_pass)
  have c: "page_screenshot ''verification/verification.png''
     \<in> set (calls (snd (test_timeline_editor env_all_pass)))"
    using pass [THEN conjunct1] by (simp add: all_return_all_pass)
  have t: "(\<exists>before. snd (test_timeline_editor env_all_pass) =
      before @ [Call (page_screenshot ''verification/verification.png'') None,
                Print ''Screenshot taken.'']) \<and>
     files_written (snd (test_timeline_editor env_all_pass)) = [''verification/verification.png'']"
    using pass [THEN conjunct2, THEN conjunct2, THEN conjunct2, THEN mp, OF r] .
  have c': "page_screenshot ''verification/verification.png''
     \<notin> set (calls (snd (test_timeline_editor env_server_down)))"
    using down [THEN conjunct1] by (simp add: bad)
  have r': "fst (test_timeline_editor env_server_down) \<noteq> Returned"
    using down [THEN conjunct2, THEN conjunct2, THEN conjunct1] by (simp add: bad)
  have c'': "page_screenshot ''verification/verification.png''
     \<in> set (calls (snd (test_timeline_editor env_final_screenshot_fails)))"
    using fails [THEN conjunct1] before by (simp only:)
  have f'': "''verification/verification.png''
     \<notin> set (files_written (snd (test_timeline_editor env_final_screenshot_fails)))"
    using fails [THEN conjunct2, THEN conjunct1] final by simp
  have r'': "fst (test_timeline_editor env_final_screenshot_fails) \<noteq> Returned"
    using fails [THEN conjunct2, THEN conjunct2, THEN conjunct1] final by simp
  show ?thesis
    by (intro conjI c r c' r' c'' f'' r'' t [THEN conjunct1] t [THEN conjunct2])
qed

text \<open>
  C3. On every path on which \<^verbatim>\<open>test_timeline_editor\<close> is called (the browser
  launched and the page opened), whether it returns or raises, and whatever it raises:
  the calls of the entry point are those that open the browser and the page, the calls
  of \<^verbatim>\<open>test_timeline_editor\<close>, then \<^verbatim>\<open>browser.close()\<close>, then the exit of the
  Playwright context. \<^verbatim>\<open>test_timeline_editor\<close> never closes the browser itself, so
  the browser is closed exactly once, after the test and before the process ends.
\<close>

theorem browser_closed_exactly_once:
  assumes "env sync_playwright_enter = None" "env (launch True) = None" "env new_page = None"
  shows "calls (snd (main env)) =
           [sync_playwright_enter, launch True, new_page] @
           calls (snd (test_timeline_editor env)) @
           [browser_close, sync_playwright_exit] \<and>
         browser_close \<notin> set (calls (snd (test_timeline_editor env))) \<and>
         count_list (calls (snd (main env))) browser_close = 1"
proof -
  obtain r t where t: "test_timeline_editor env = (r, t)"
    by (cases "test_timeline_editor env")
  have c: "calls (snd (main env)) =
      [sync_playwright_enter, launch True, new_page] @ calls t @
      [browser_close, sync_playwright_exit]"
    by (cases r) (simp_all add: main_opened [OF assms t] calls_append)
  have n: "browser_close \<notin> set (calls t)"
    using browser_close_not_in_test [of env] by (simp add: t)
  then have "count_list (calls t) browser_close = 0"
    by (simp add: count_list_0_iff)
  then have "count_list (calls (snd (main env))) browser_close = 1"
    by (simp add: c)
  with c n show ?thesis
    by (simp add: t)
qed

theorem browser_closed_exactly_once_witness:
  "fst (test_timeline_editor env_all_pass) = Returned \<and>
   count_list (calls (snd (main env_all_pass))) browser_close = 1 \<and>
   fst (test_timeline_editor env_server_down) = Raised connection_refused \<and>
   count_list (calls (snd (main env_server_down))) browser_close = 1 \<and>
   fst (test_timeline_editor env_interrupted) = Raised (Exn KeyboardInterrupt []) \<and>
   count_list (calls (snd (main env_interrupted))) browser_close = 1"
proof -
  note a = browser_closed_exactly_once [of env_all_pass, OF env_all_pass_None
      env_all_pass_None env_all_pass_None]
  note b = browser_closed_exactly_once [of env_server_down, OF env_server_down_opens(1-3)]
  note c = browser_closed_exactly_once [of env_interrupted, OF env_interrupted_opens(1-3)]
  have 1: "fst (test_timeline_editor env_all_pass) = Returned"
    by (simp add: trace_all_pass)
  have 3: "fst (test_timeline_editor env_interrupted) = Raised (Exn KeyboardInterrupt [])"
    by (simp only: test_interrupted fst_conv)
  show ?thesis
    by (intro conjI 1 3 test_server_down a [THEN conjunct2, THEN conjunct2]
        b [THEN conjunct2, THEN conjunct2] c [THEN conjunct2, THEN conjunct2])
qed

text \<open>
  C4, as the code has it. The driver catches \<^verbatim>\<open>Exception\<close>, not every exception:
  an interrupt during the navigation leaves \<^verbatim>\<open>test_timeline_editor\<close>, is not
  logged, and leaves the entry point as well.
\<close>

theorem interrupt_is_not_swallowed:
  "fst (test_timeline_editor env_interrupted) = Raised (Exn KeyboardInterrupt []) \<and>
   fst (main env_interrupted) = Raised (Exn KeyboardInterrupt []) \<and>
   Print (''Error: '' @ str (Exn KeyboardInterrupt [])) \<notin> set (snd (main env_interrupted))"
proof -
  have m: "main env_interrupted =
     (Raised (Exn KeyboardInterrupt []),
      [Call sync_playwright_enter None, Call (launch True) None, Call new_page None] @
      (passed (map Do setup_steps) @
       [Print ''Navigating...'',
        Call (page_goto ''http://localhost:3000/timelines/tl1'')
             (Some (Exn KeyboardInterrupt []))]) @
      [Call browser_close None, Call sync_playwright_exit None])"
    by (simp add: main_opened [OF env_interrupted_opens(1-3) test_interrupted]
        env_interrupted_opens isinstance_Exception_def)
  have "Print (''Error: '' @ str (Exn KeyboardInterrupt [])) \<notin> set (snd (main env_interrupted))"
    unfolding m by (simp add: setup_steps_def)
  then show ?thesis
    by (simp add: test_interrupted m)
qed

text \<open>
  C4, amended. When \<^verbatim>\<open>test_timeline_editor\<close> raises an exception that derives from
  \<^verbatim>\<open>Exception\<close>, the driver prints \<^verbatim>\<open>Error: \<close> followed by its text and does
  not raise it again: how the run ends is decided by the clean-up alone, and it ends
  normally when closing the browser and leaving the Playwright context return. An
  exception that does not derive from \<^verbatim>\<open>Exception\<close> is raised again after the
  clean-up.
\<close>

theorem driver_swallows_Exception:
  assumes "env sync_playwright_enter = None" "env (launch True) = None" "env new_page = None"
    and "fst (test_timeline_editor env) = Raised e"
  shows "fst (main env) =
           (case env sync_playwright_exit of
              Some e2 \<Rightarrow> Raised e2
            | None \<Rightarrow>
               (case env browser_close of
                  Some e1 \<Rightarrow> Raised e1
                | None \<Rightarrow> if isinstance_Exception e then Returned else Raised e)) \<and>
         (isinstance_Exception e \<longrightarrow> Print (''Error: '' @ str e) \<in> set (snd (main env)))"
proof -
  obtain t where t: "test_timeline_editor env = (Raised e, t)"
    using assms(4) by (cases "test_timeline_editor env") simp
  show ?thesis
    by (simp add: main_opened [OF assms(1-3) t] split: option.splits)
qed

theorem driver_swallows_Exception_witness:
  "isinstance_Exception connection_refused \<and>
   fst (test_timeline_editor env_server_down) = Raised connection_refused \<and>
   fst (main env_server_down) = Returned \<and>
   Print ''Error: net::ERR_CONNECTION_REFUSED'' \<in> set (snd (main env_server_down))"
proof -
  note th = driver_swallows_Exception [of env_server_down, OF env_server_down_opens(1-3)
      test_server_down]
  have i: "isinstance_Exception connection_refused"
    by (simp add: isinstance_Exception_def connection_refused_def)
  have r: "fst (main env_server_down) = Returned"
    using th [THEN conjunct1] by (simp add: env_server_down_opens i)
  have p: "Print ''Error: net::ERR_CONNECTION_REFUSED'' \<in> set (snd (main env_server_down))"
    using th [THEN conjunct2, THEN mp, OF i] by (simp add: connection_refused_def)
  show ?thesis
    by (intro conjI i test_server_down r p)
qed

end
